theory Spec2Isabelle
  imports Complex_Main "HOL-Library.Sublist" "HOL-Library.Log_Nat"
begin

section \<open>Data model\<close>

text \<open>
  The orchestrating class \<^verbatim>\<open>Vulkava\<close> of \<^verbatim>\<open>lib/Vulkava.ts\<close> is embedded here.
  The classes \<^verbatim>\<open>Node\<close>, \<^verbatim>\<open>Player\<close> and \<^verbatim>\<open>Track\<close> it talks to live in files
  that are not part of the sources at hand; only the members the orchestrator
  reads or writes are represented.
\<close>

subsection \<open>Errors\<close>

text \<open>
  \<^verbatim>\<open>throw new Error('No connected nodes!')\<close> is \<open>NoAvailableNode\<close>,
  \<^verbatim>\<open>throw new Error('Assertion failed. The Player does not have a node.')\<close> is
  \<open>AssertionFailed\<close>, reading a member of \<^verbatim>\<open>undefined\<close> is \<open>TypeError\<close>, and a
  rejected promise of a node request or a catalog lookup is \<open>RemoteError\<close>.
\<close>

datatype error = NoAvailableNode | AssertionFailed | TypeError | RemoteError string

subsection \<open>Nodes\<close>

text \<open>
  Modelled from the spec: the enum \<^verbatim>\<open>NodeState\<close> is declared with \<^verbatim>\<open>Node\<close>, of
  which the orchestrator names the member \<^verbatim>\<open>CONNECTED\<close> only. The health state
  of a link is one of IDLE, CONNECTING, CONNECTED, RECONNECTING, DISCONNECTED.
\<close>

datatype NodeState = IDLE | CONNECTING | CONNECTED | RECONNECTING | DISCONNECTED

text \<open>
  A \<^verbatim>\<open>Node\<close> object as the orchestrator sees it: \<^verbatim>\<open>node.state\<close>,
  the getter \<^verbatim>\<open>node.totalPenalties\<close> and \<^verbatim>\<open>node.options.region\<close>.
  Node objects are shared between the pool array and the players, so they live
  in a store indexed by reference; two references are the same object exactly
  when they are equal.
\<close>

record node =
  state :: NodeState
  totalPenalties :: int
  region :: "string option"

type_synonym node_ref = nat

type_synonym node_store = "node_ref \<Rightarrow> node"

subsection \<open>Players\<close>

text \<open>
  The enum \<^verbatim>\<open>ConnectionState\<close> is declared with \<^verbatim>\<open>Player\<close>; the orchestrator names
  its member \<^verbatim>\<open>DISCONNECTED\<close> only, here \<open>P_DISCONNECTED\<close>. The two other
  members stand for the states a player is in otherwise.
\<close>

datatype ConnectionState = P_CONNECTING | P_CONNECTED | P_DISCONNECTED

text \<open>The payload \<^verbatim>\<open>d\<close> of a voice server update, kept as \<^verbatim>\<open>voiceState.event\<close>.\<close>

record voice_server_data =
  token :: string
  guild_id :: "string option"
  endpoint :: "string option"

record player =
  guildId :: string
  voiceChannelId :: string
  sessionId :: "string option"
  event :: "voice_server_data option"
  node :: "node_ref option"
  pstate :: ConnectionState

subsection \<open>Numbers\<close>

text \<open>
  A JavaScript number is an IEEE 754 double: a finite value, which is a
  rational \<open>m \<cdot> 2\<^sup>e\<close> with \<open>\<bar>m\<bar> < 2\<^sup>5\<^sup>3\<close> and \<open>-1074 \<le> e \<le> 971\<close>, or one of
  \<^verbatim>\<open>Infinity\<close>, \<^verbatim>\<open>-Infinity\<close> and \<^verbatim>\<open>NaN\<close>. The sign of zero is not represented.
\<close>

datatype number = Finite rat | PosInfinity | NegInfinity | NaN

definition pow2 :: "int \<Rightarrow> rat" where
  "pow2 e = (if 0 \<le> e then 2 ^ nat e else 1 / 2 ^ nat (- e))"

text \<open>The binary exponent of a positive rational \<open>a\<close>: \<open>2\<^sup>k \<le> a < 2\<^sup>k\<^sup>+\<^sup>1\<close>.\<close>

definition ilog2 :: "rat \<Rightarrow> int" where
  "ilog2 a =
     (case quotient_of a of
        (p, q) \<Rightarrow> let k = bitlen p - bitlen q in if pow2 k \<le> a then k else k - 1)"

definition roundHalfEven :: "rat \<Rightarrow> int" where
  "roundHalfEven y =
     (let f = \<lfloor>y\<rfloor>; d = y - of_int f
      in if d < 1 / 2 then f else if 1 / 2 < d then f + 1 else if even f then f else f + 1)"

text \<open>
  Rounding of an exact result to the nearest double, ties to the even
  significand: 53 significant bits, the exponent not below that of the
  subnormal numbers, and overflow to an infinity from \<open>2\<^sup>1\<^sup>0\<^sup>2\<^sup>4\<close> on.
\<close>

definition roundToDouble :: "rat \<Rightarrow> number" where
  "roundToDouble x =
     (if x = 0 then Finite 0
      else
        let a = \<bar>x\<bar>;
            e = max (ilog2 a - 52) (- 1074);
            r = of_int (roundHalfEven (a / pow2 e)) * pow2 e
        in if 2 ^ 1024 \<le> r then (if 0 < x then PosInfinity else NegInfinity)
           else Finite (if 0 < x then r else - r))"

text \<open>The operator \<^verbatim>\<open>+\<close> on two numbers.\<close>

fun jsAdd :: "number \<Rightarrow> number \<Rightarrow> number" where
  "jsAdd NaN y = NaN"
| "jsAdd x NaN = NaN"
| "jsAdd PosInfinity NegInfinity = NaN"
| "jsAdd NegInfinity PosInfinity = NaN"
| "jsAdd PosInfinity y = PosInfinity"
| "jsAdd x PosInfinity = PosInfinity"
| "jsAdd NegInfinity y = NegInfinity"
| "jsAdd x NegInfinity = NegInfinity"
| "jsAdd (Finite a) (Finite b) = roundToDouble (a + b)"

subsection \<open>Tracks and load results\<close>

datatype loadType = TRACK_LOADED | PLAYLIST_LOADED | SEARCH_RESULT | NO_MATCHES | LOAD_FAILED

record track =
  title :: string
  duration :: number

record itrack =
  encoded :: string
  info_length :: number

text \<open>\<^verbatim>\<open>{} as PlaylistInfo\<close> is the record with every member absent.\<close>

record PlaylistInfo =
  pl_name :: "string option"
  pl_duration :: "number option"
  selectedTrack :: "int option"

record LoadTracksResult =
  lt_loadType :: loadType
  lt_playlistInfo :: PlaylistInfo
  lt_tracks :: "itrack list"

record SearchResult =
  sr_loadType :: loadType
  sr_playlistInfo :: PlaylistInfo
  sr_tracks :: "track list"

text \<open>
  \<^verbatim>\<open>search\<close> returns either the raw node answer (\<^verbatim>\<open>res as unknown as SearchResult\<close>)
  or a result whose items were wrapped into \<^verbatim>\<open>Track\<close> objects.
\<close>

datatype search_return = Raw LoadTracksResult | Wrapped SearchResult

subsection \<open>Catalog collaborators\<close>

record titled_list =
  tl_title :: string
  tl_tracks :: "track list"

record AppleMusic =
  am_getMusicVideo :: "string \<Rightarrow> string \<Rightarrow> error + track"
  am_getTrack :: "string \<Rightarrow> string \<Rightarrow> error + track"
  am_getAlbum :: "string \<Rightarrow> string \<Rightarrow> error + titled_list"
  am_getPlaylist :: "string \<Rightarrow> string \<Rightarrow> error + titled_list"
  am_getArtistTopTracks :: "string \<Rightarrow> string \<Rightarrow> error + titled_list"

record Deezer =
  dz_getTrack :: "string \<Rightarrow> error + track"
  dz_getAlbum :: "string \<Rightarrow> error + titled_list"
  dz_getPlaylist :: "string \<Rightarrow> error + titled_list"

record Spotify =
  sp_getTrack :: "string \<Rightarrow> error + track"
  sp_getAlbum :: "string \<Rightarrow> error + titled_list"
  sp_getPlaylist :: "string \<Rightarrow> error + titled_list"
  sp_getArtistTopTracks :: "string \<Rightarrow> error + titled_list"

datatype SEARCH_SOURCE = youtube | youtubemusic | soundcloud | odysee | yandex

subsection \<open>The orchestrator\<close>

text \<open>
  \<open>clientId\<close> and \<open>cache\<close> are \<open>None\<close> (\<^verbatim>\<open>undefined\<close>) until \<^verbatim>\<open>start\<close> has
  run; \<open>nodes\<close> is the array of node references in its current order.
\<close>

record vulkava =
  clientId :: "string option"
  nodes :: "node_ref list"
  cache :: "(string \<times> LoadTracksResult) list option"
  defaultSearchSource :: SEARCH_SOURCE
  appleMusic :: "AppleMusic option"
  deezer :: "Deezer option"
  spotify :: "Spotify option"
  players :: "string \<rightharpoonup> player"
  lastNodeSorting :: int

section \<open>Node selection\<close>

text \<open>
  \<^verbatim>\<open>get bestNode()\<close>. \<open>now\<close> is the reading of \<^verbatim>\<open>Date.now()\<close>.
  \<^verbatim>\<open>Array.prototype.sort\<close> is stable and sorts \<^verbatim>\<open>this.nodes\<close> in place; with the
  comparator \<^verbatim>\<open>a.totalPenalties - b.totalPenalties\<close> it is the stable sort by the
  key \<open>totalPenalties\<close>. The getter calls itself after resetting
  \<^verbatim>\<open>lastNodeSorting\<close>; a call that never returns has the value \<open>None\<close>.
\<close>

partial_function (option) bestNode ::
  "int \<Rightarrow> node_store \<Rightarrow> vulkava \<Rightarrow> ((error + node_ref) \<times> vulkava) option"
where
  "bestNode now st v =
     (if now < lastNodeSorting v + 30000 then
        (case nodes v of
           [] \<Rightarrow> Some (Inl TypeError, v)
         | n # _ \<Rightarrow>
             if state (st n) = CONNECTED then Some (Inr n, v)
             else bestNode now st (v\<lparr>lastNodeSorting := 0\<rparr>))
      else
        (let v' = v\<lparr>nodes := sort_key (\<lambda>r. totalPenalties (st r)) (nodes v)\<rparr> in
         case nodes v' of
           [] \<Rightarrow> Some (Inl NoAvailableNode, v')
         | n # _ \<Rightarrow>
             if state (st n) \<noteq> CONNECTED then Some (Inl NoAvailableNode, v')
             else Some (Inr n, v')))"

section \<open>Construction and start\<close>

text \<open>
  The options as the constructor reads them. Each entry of \<open>o_nodes\<close> stands for
  one \<^verbatim>\<open>NodeOptions\<close> object (its region label); the collaborator instances the
  constructor creates with \<^verbatim>\<open>new\<close> are passed in.
\<close>

record VulkavaOptions =
  o_nodes :: "string option list"
  o_defaultSearchSource :: "SEARCH_SOURCE option"
  o_disabledSources :: "string list option"

text \<open>
  \<^verbatim>\<open>checkOptions\<close> rejects an empty node list; the loop
  \<^verbatim>\<open>for (const nodeOp of options.nodes) this.nodes.push(new Node(this, nodeOp))\<close>
  allocates the node objects \<open>0, 1, ...\<close> in the order of the options.
\<close>

definition constructor ::
  "VulkavaOptions \<Rightarrow> AppleMusic \<Rightarrow> Deezer \<Rightarrow> Spotify \<Rightarrow> error + vulkava"
where
  "constructor options am dz sp =
     (if o_nodes options = [] then Inl TypeError
      else Inr \<lparr>
        clientId = None,
        nodes = [0 ..< length (o_nodes options)],
        cache = None,
        defaultSearchSource =
          (case o_defaultSearchSource options of None \<Rightarrow> youtube | Some s \<Rightarrow> s),
        appleMusic =
          (case o_disabledSources options of
             None \<Rightarrow> Some am
           | Some ds \<Rightarrow> if ''APPLE_MUSIC'' \<notin> set ds then Some am else None),
        deezer =
          (case o_disabledSources options of
             None \<Rightarrow> Some dz
           | Some ds \<Rightarrow> if ''DEEZER'' \<notin> set ds then Some dz else None),
        spotify =
          (case o_disabledSources options of
             None \<Rightarrow> Some sp
           | Some ds \<Rightarrow> if ''SPOTIFY'' \<notin> set ds then Some sp else None),
        players = Map.empty,
        lastNodeSorting = 0 \<rparr>)"

definition start :: "string \<Rightarrow> vulkava \<Rightarrow> vulkava" where
  "start cid v = v\<lparr>clientId := Some cid, cache := Some []\<rparr>"

section \<open>Voice updates\<close>

text \<open>JavaScript truthiness of a string that may be \<^verbatim>\<open>null\<close> or \<^verbatim>\<open>undefined\<close>.\<close>

definition truthy :: "string option \<Rightarrow> bool" where
  "truthy s = (case s of None \<Rightarrow> False | Some x \<Rightarrow> x \<noteq> [])"

text \<open>
  An incoming gateway payload: the operation code \<^verbatim>\<open>op\<close> and, by its tag \<^verbatim>\<open>t\<close>,
  the data \<^verbatim>\<open>d\<close> of a voice state update, of a voice server update, or of any
  other event (of which only \<^verbatim>\<open>guild_id\<close> is read).
\<close>

datatype incoming =
    VOICE_STATE_UPDATE "string option" string string "string option"
  | VOICE_SERVER_UPDATE voice_server_data
  | OTHER_EVENT "string option"

record payload =
  op :: int
  body :: incoming

fun d_guild_id :: "incoming \<Rightarrow> string option" where
  "d_guild_id (VOICE_STATE_UPDATE g uid sid ch) = g"
| "d_guild_id (VOICE_SERVER_UPDATE d) = guild_id d"
| "d_guild_id (OTHER_EVENT g) = g"

text \<open>
  The message a player sends to its node: the stored session id and the stored
  server assignment (endpoint and token), addressed to the node \<open>hs_target\<close>.
\<close>

record handshake =
  hs_target :: node_ref
  hs_guildId :: string
  hs_sessionId :: string
  hs_event :: voice_server_data

text \<open>
  Modelled from the spec: \<^verbatim>\<open>Player.sendVoiceUpdate\<close> (\<^verbatim>\<open>lib/Player\<close> is not among
  the sources). The handshake is emitted if and only if both facts are present
  and the owning link is non-null and CONNECTED; if the owning link is null or
  not CONNECTED when a handshake would be emitted, the session raises
  \<open>AssertionFailed\<close>. The spec names no change of the stored session on either
  outcome, so the player is left as it is.
\<close>

definition sendVoiceUpdate :: "node_store \<Rightarrow> player \<Rightarrow> error + handshake" where
  "sendVoiceUpdate st p =
     (case node p of
        None \<Rightarrow> Inl AssertionFailed
      | Some r \<Rightarrow>
          if state (st r) \<noteq> CONNECTED then Inl AssertionFailed
          else (case (sessionId p, event p) of
                  (Some sid, Some ev) \<Rightarrow>
                    Inr \<lparr>hs_target = r, hs_guildId = guildId p,
                         hs_sessionId = sid, hs_event = ev\<rparr>
                | _ \<Rightarrow> Inl AssertionFailed))"

text \<open>
  \<^verbatim>\<open>Player.moveNode\<close> is not among the sources either. It is a parameter of the
  model: given the store, the player and the target node it yields an optional
  error, the player as changed and the messages sent.
\<close>

type_synonym moveNode_impl =
  "node_store \<Rightarrow> player \<Rightarrow> node_ref \<Rightarrow> error option \<times> player \<times> handshake list"

text \<open>
  Lines 530 to 548: the node the session is to be moved to, if any. The result
  \<open>Some n\<close> is the argument \<^verbatim>\<open>usaNodes[0]\<close> or \<^verbatim>\<open>europeNodes[0]\<close> of the call of
  \<^verbatim>\<open>player.moveNode\<close>; \<open>None\<close> means the code falls through to the handshake.
\<close>

definition migrationTarget :: "node_store \<Rightarrow> vulkava \<Rightarrow> node_ref \<Rightarrow> string \<Rightarrow> node_ref option" where
  "migrationTarget st v r ep =
     (if list_ex (\<lambda>loc. prefix loc ep) [''us'', ''brazil'', ''buenos-aires''] then
        (if truthy (region (st r)) \<and> region (st r) \<noteq> Some ''USA'' then
           (case filter (\<lambda>n. region (st n) = Some ''USA'' \<and> state (st n) = CONNECTED) (nodes v) of
              [] \<Rightarrow> None
            | n # _ \<Rightarrow> Some n)
         else None)
      else if truthy (region (st r)) \<and> region (st r) \<noteq> Some ''EU'' then
        (case filter (\<lambda>n. region (st n) = Some ''EU'' \<and> state (st n) = CONNECTED) (nodes v) of
           [] \<Rightarrow> None
         | n # _ \<Rightarrow> Some n)
      else None)"

text \<open>
  \<^verbatim>\<open>handleVoiceUpdate\<close>. The result is the error thrown (if any), the orchestrator
  with the player as mutated, and the handshakes sent. The player object is
  mutated in place, so every write made before a \<^verbatim>\<open>throw\<close> is kept.
\<close>

definition handleVoiceUpdate ::
  "moveNode_impl \<Rightarrow> node_store \<Rightarrow> vulkava \<Rightarrow> payload \<Rightarrow> error option \<times> vulkava \<times> handshake list"
where
  "handleVoiceUpdate mv st v p =
     (if op p \<noteq> 0 \<or> \<not> truthy (d_guild_id (body p)) then (None, v, [])
      else
        let g = the (d_guild_id (body p)) in
        case players v g of
          None \<Rightarrow> (None, v, [])
        | Some pl \<Rightarrow>
            (case body p of
               VOICE_STATE_UPDATE gid uid sid ch \<Rightarrow>
                 if Some uid \<noteq> clientId v then (None, v, [])
                 else
                   let pl1 = pl\<lparr>sessionId := Some sid\<rparr>;
                       pl2 = (if truthy ch then pl1\<lparr>voiceChannelId := the ch\<rparr> else pl1);
                       v' = v\<lparr>players := (players v)(g \<mapsto> pl2)\<rparr>
                   in if event pl2 \<noteq> None then
                        (case sendVoiceUpdate st pl2 of
                           Inl e \<Rightarrow> (Some e, v', [])
                         | Inr h \<Rightarrow> (None, v', [h]))
                      else (None, v', [])
             | VOICE_SERVER_UPDATE d \<Rightarrow>
                 if \<not> truthy (endpoint d) then (None, v, [])
                 else
                   let pl1 = pl\<lparr>event := Some d\<rparr> in
                   (case node pl1 of
                      None \<Rightarrow>
                        (Some AssertionFailed,
                         v\<lparr>players := (players v)(g \<mapsto> pl1\<lparr>pstate := P_DISCONNECTED\<rparr>)\<rparr>, [])
                    | Some r \<Rightarrow>
                        (case migrationTarget st v r (the (endpoint d)) of
                           Some n \<Rightarrow>
                             (case mv st pl1 n of
                                (e, pl2, sent) \<Rightarrow> (e, v\<lparr>players := (players v)(g \<mapsto> pl2)\<rparr>, sent))
                         | None \<Rightarrow>
                             let v' = v\<lparr>players := (players v)(g \<mapsto> pl1)\<rparr> in
                             if truthy (sessionId pl1) then
                               (case sendVoiceUpdate st pl1 of
                                  Inl e \<Rightarrow> (Some e, v', [])
                                | Inr h \<Rightarrow> (None, v', [h]))
                             else (None, v', [])))
             | OTHER_EVENT gid \<Rightarrow> (None, v, [])))"

section \<open>Search\<close>

text \<open>
  What \<^verbatim>\<open>query.match\<close> yields against the three static patterns is taken as
  data: \<open>None\<close> for no match, otherwise the capture groups the code reads. For
  \<^verbatim>\<open>APPLE_MUSIC_REGEX\<close> these are the storefront, the kind, the id and the
  optional \<^verbatim>\<open>?i=\<close> song id; for \<^verbatim>\<open>DEEZER_REGEX\<close> and \<^verbatim>\<open>SPOTIFY_REGEX\<close> the kind
  and the id. \<open>request\<close> is \<^verbatim>\<open>node.request('GET', 'loadtracks?identifier=...')\<close>
  on the given node with the given identifier, and \<open>newTrack\<close> is
  \<^verbatim>\<open>new Track(t)\<close>.
\<close>

record env =
  APPLE_MUSIC_REGEX :: "string \<Rightarrow> (string \<times> string \<times> string \<times> string option) option"
  DEEZER_REGEX :: "string \<Rightarrow> (string \<times> string) option"
  SPOTIFY_REGEX :: "string \<Rightarrow> (string \<times> string) option"
  request :: "node_ref \<Rightarrow> string \<Rightarrow> error + LoadTracksResult"
  newTrack :: "itrack \<Rightarrow> track"

text \<open>\<^verbatim>\<open>tracks.reduce((acc, curr) => acc + curr.duration, 0)\<close>\<close>

definition totalDuration :: "track list \<Rightarrow> number" where
  "totalDuration ts = foldl (\<lambda>acc curr. jsAdd acc (duration curr)) (Finite 0) ts"

definition emptyPlaylistInfo :: PlaylistInfo where
  "emptyPlaylistInfo = \<lparr>pl_name = None, pl_duration = None, selectedTrack = None\<rparr>"

text \<open>The two shapes of object the catalog loaders return, after the awaited lookup.\<close>

definition trackLoaded :: "error + track \<Rightarrow> error + SearchResult option" where
  "trackLoaded r =
     (case r of
        Inl e \<Rightarrow> Inl e
      | Inr t \<Rightarrow>
          Inr (Some \<lparr>sr_loadType = TRACK_LOADED, sr_playlistInfo = emptyPlaylistInfo,
                     sr_tracks = [t]\<rparr>))"

definition playlistLoaded :: "error + titled_list \<Rightarrow> error + SearchResult option" where
  "playlistLoaded r =
     (case r of
        Inl e \<Rightarrow> Inl e
      | Inr l \<Rightarrow>
          Inr (Some \<lparr>sr_loadType = PLAYLIST_LOADED,
                     sr_playlistInfo =
                       \<lparr>pl_name = Some (tl_title l),
                        pl_duration = Some (totalDuration (tl_tracks l)),
                        selectedTrack = Some 0\<rparr>,
                     sr_tracks = tl_tracks l\<rparr>))"

definition loadFromAppleMusic :: "env \<Rightarrow> vulkava \<Rightarrow> string \<Rightarrow> error + SearchResult option" where
  "loadFromAppleMusic ev v query =
     (case appleMusic v of
        None \<Rightarrow> Inr None
      | Some am \<Rightarrow>
          (case APPLE_MUSIC_REGEX ev query of
             None \<Rightarrow> Inr None
           | Some (storefront, kind, ident, song) \<Rightarrow>
               if kind = ''music-video'' then trackLoaded (am_getMusicVideo am ident storefront)
               else if kind = ''album'' then
                 (if truthy song then trackLoaded (am_getTrack am (the song) storefront)
                  else playlistLoaded (am_getAlbum am ident storefront))
               else if kind = ''playlist'' then playlistLoaded (am_getPlaylist am ident storefront)
               else if kind = ''artist'' then
                 playlistLoaded (am_getArtistTopTracks am ident storefront)
               else Inr None))"

definition loadFromDeezer :: "env \<Rightarrow> vulkava \<Rightarrow> string \<Rightarrow> error + SearchResult option" where
  "loadFromDeezer ev v query =
     (case deezer v of
        None \<Rightarrow> Inr None
      | Some dz \<Rightarrow>
          (case DEEZER_REGEX ev query of
             None \<Rightarrow> Inr None
           | Some (kind, ident) \<Rightarrow>
               if kind = ''track'' then trackLoaded (dz_getTrack dz ident)
               else if kind = ''album'' then playlistLoaded (dz_getAlbum dz ident)
               else if kind = ''playlist'' then playlistLoaded (dz_getPlaylist dz ident)
               else Inr None))"

definition loadFromSpotify :: "env \<Rightarrow> vulkava \<Rightarrow> string \<Rightarrow> error + SearchResult option" where
  "loadFromSpotify ev v query =
     (case spotify v of
        None \<Rightarrow> Inr None
      | Some sp \<Rightarrow>
          (case SPOTIFY_REGEX ev query of
             None \<Rightarrow> Inr None
           | Some (kind, ident) \<Rightarrow>
               if kind = ''track'' then trackLoaded (sp_getTrack sp ident)
               else if kind = ''album'' then playlistLoaded (sp_getAlbum sp ident)
               else if kind = ''playlist'' then playlistLoaded (sp_getPlaylist sp ident)
               else if kind = ''artist'' then playlistLoaded (sp_getArtistTopTracks sp ident)
               else Inr None))"

text \<open>
  \<^verbatim>\<open>await loadFromAppleMusic(q) ?? await loadFromDeezer(q) ?? await loadFromSpotify(q)\<close>:
  the next loader runs only when the one before yielded \<^verbatim>\<open>null\<close>.
\<close>

definition extSourceResult :: "env \<Rightarrow> vulkava \<Rightarrow> string \<Rightarrow> error + SearchResult option" where
  "extSourceResult ev v query =
     (case loadFromAppleMusic ev v query of
        Inl e \<Rightarrow> Inl e
      | Inr (Some r) \<Rightarrow> Inr (Some r)
      | Inr None \<Rightarrow>
          (case loadFromDeezer ev v query of
             Inl e \<Rightarrow> Inl e
           | Inr (Some r) \<Rightarrow> Inr (Some r)
           | Inr None \<Rightarrow> loadFromSpotify ev v query))"

fun sourceMap :: "SEARCH_SOURCE \<Rightarrow> string" where
  "sourceMap youtube = ''ytsearch:''"
| "sourceMap youtubemusic = ''ytmsearch:''"
| "sourceMap soundcloud = ''scsearch:''"
| "sourceMap odysee = ''odsearch:''"
| "sourceMap yandex = ''ymsearch:''"

definition finalQuery :: "string \<Rightarrow> SEARCH_SOURCE \<Rightarrow> string" where
  "finalQuery query source =
     (if \<not> prefix ''https://'' query \<and> \<not> prefix ''http://'' query
      then sourceMap source @ query else query)"

text \<open>
  \<^verbatim>\<open>this.cache.each.map((x) => { if (x.q === query) res = x.v })\<close>: every entry is
  visited, so the last entry with the key is the one kept.
\<close>

definition cacheLookup :: "(string \<times> LoadTracksResult) list \<Rightarrow> string \<Rightarrow> LoadTracksResult option" where
  "cacheLookup c q = foldl (\<lambda>res x. if fst x = q then Some (snd x) else res) None c"

text \<open>
  \<^verbatim>\<open>res\<close> is the very object held by the cache (the last entry with the key), so
  the assignment to \<^verbatim>\<open>res.playlistInfo.duration\<close> changes that entry too.
\<close>

fun updFirst :: "string \<Rightarrow> number \<Rightarrow> (string \<times> LoadTracksResult) list \<Rightarrow> (string \<times> LoadTracksResult) list" where
  "updFirst q n [] = []"
| "updFirst q n (x # xs) =
     (if fst x = q
      then (fst x, (snd x)\<lparr>lt_playlistInfo := (lt_playlistInfo (snd x))\<lparr>pl_duration := Some n\<rparr>\<rparr>) # xs
      else x # updFirst q n xs)"

definition setCachedDuration :: "string \<Rightarrow> number \<Rightarrow> (string \<times> LoadTracksResult) list \<Rightarrow> (string \<times> LoadTracksResult) list" where
  "setCachedDuration q n c = rev (updFirst q n (rev c))"

text \<open>Lines 454 to 466: what is returned for the node answer \<open>res\<close>.\<close>

definition wrapResult :: "env \<Rightarrow> string \<Rightarrow> LoadTracksResult \<Rightarrow> vulkava \<Rightarrow> search_return \<times> vulkava" where
  "wrapResult ev q res v =
     (if lt_loadType res = LOAD_FAILED \<or> lt_loadType res = NO_MATCHES then (Raw res, v)
      else
        let tracks = map (newTrack ev) (lt_tracks res) in
        if lt_loadType res = PLAYLIST_LOADED then
          (Wrapped \<lparr>sr_loadType = lt_loadType res,
                    sr_playlistInfo = (lt_playlistInfo res)\<lparr>pl_duration := Some (totalDuration tracks)\<rparr>,
                    sr_tracks = tracks\<rparr>,
           v\<lparr>cache := map_option (setCachedDuration q (totalDuration tracks)) (cache v)\<rparr>)
        else
          (Wrapped \<lparr>sr_loadType = lt_loadType res, sr_playlistInfo = lt_playlistInfo res,
                    sr_tracks = tracks\<rparr>, v))"

text \<open>
  The request to the node and \<^verbatim>\<open>this.cache.add({ q: query, v: res })\<close>. The third
  component of the result lists the load requests issued, as node and identifier.
\<close>

definition fetch ::
  "env \<Rightarrow> node_ref \<Rightarrow> string \<Rightarrow> (string \<times> LoadTracksResult) list \<Rightarrow> vulkava
     \<Rightarrow> (error + search_return) \<times> vulkava \<times> (node_ref \<times> string) list"
where
  "fetch ev nd q c v =
     (case request ev nd q of
        Inl e \<Rightarrow> (Inl e, v, [(nd, q)])
      | Inr res \<Rightarrow>
          (case wrapResult ev q res (v\<lparr>cache := Some (c @ [(q, res)])\<rparr>) of
             (r, v') \<Rightarrow> (Inr r, v', [(nd, q)])))"

text \<open>Lines 426 to 466, run when no catalog collaborator took the query.\<close>

definition genericLoad ::
  "env \<Rightarrow> node_ref \<Rightarrow> string \<Rightarrow> SEARCH_SOURCE \<Rightarrow> vulkava
     \<Rightarrow> (error + search_return) \<times> vulkava \<times> (node_ref \<times> string) list"
where
  "genericLoad ev nd query source v =
     (let q = finalQuery query source in
      case cache v of
        None \<Rightarrow> (Inl TypeError, v, [])
      | Some c \<Rightarrow>
          if length c = 0 then fetch ev nd q c v
          else
            (case cacheLookup c q of
               None \<Rightarrow> fetch ev nd q c v
             | Some res \<Rightarrow> (case wrapResult ev q res v of (r, v') \<Rightarrow> (Inr r, v', []))))"

text \<open>
  \<^verbatim>\<open>search\<close>; \<open>src = None\<close> is the call without a source, which takes
  \<^verbatim>\<open>this.defaultSearchSource\<close>. Its first statement is \<^verbatim>\<open>const node = this.bestNode\<close>; a getter
  that throws ends the search, one that never returns leaves it without a
  result.
\<close>

definition search ::
  "env \<Rightarrow> int \<Rightarrow> node_store \<Rightarrow> vulkava \<Rightarrow> string \<Rightarrow> SEARCH_SOURCE option
     \<Rightarrow> ((error + search_return) \<times> vulkava \<times> (node_ref \<times> string) list) option"
where
  "search ev now st v query src =
     (let source = (case src of None \<Rightarrow> defaultSearchSource v | Some s \<Rightarrow> s) in
      case bestNode now st v of
        None \<Rightarrow> None
      | Some (Inl e, v1) \<Rightarrow> Some (Inl e, v1, [])
      | Some (Inr nd, v1) \<Rightarrow>
          Some (case extSourceResult ev v1 query of
                  Inl e \<Rightarrow> (Inl e, v1, [])
                | Inr (Some r) \<Rightarrow> (Inr (Wrapped r), v1, [])
                | Inr None \<Rightarrow> genericLoad ev nd query source v1))"

section \<open>Auxiliary notions for the statements\<close>

text \<open>The rescanning branch of \<^verbatim>\<open>bestNode\<close> (lines 193 to 199) on its own.\<close>

definition rescan :: "node_store \<Rightarrow> vulkava \<Rightarrow> (error + node_ref) \<times> vulkava" where
  "rescan st v =
     (let v' = v\<lparr>nodes := sort_key (\<lambda>r. totalPenalties (st r)) (nodes v)\<rparr> in
      case nodes v' of
        [] \<Rightarrow> (Inl NoAvailableNode, v')
      | n # _ \<Rightarrow>
          if state (st n) \<noteq> CONNECTED then (Inl NoAvailableNode, v') else (Inr n, v'))"

text \<open>
  The pool members whose penalty score is the lowest of the pool, in the
  current order of the array.
\<close>

definition lowestNodes :: "node_store \<Rightarrow> vulkava \<Rightarrow> node_ref list" where
  "lowestNodes st v =
     filter (\<lambda>r. \<forall>r' \<in> set (nodes v). totalPenalties (st r) \<le> totalPenalties (st r')) (nodes v)"

text \<open>
  Two payloads handled one after the other: the orchestrator after both and
  every handshake sent, in order. An error thrown by the first call does not
  keep the gateway from delivering the second payload.
\<close>

definition deliverBoth ::
  "moveNode_impl \<Rightarrow> node_store \<Rightarrow> vulkava \<Rightarrow> payload \<Rightarrow> payload \<Rightarrow> vulkava \<times> handshake list"
where
  "deliverBoth mv st v p q =
     (case handleVoiceUpdate mv st v p of
        (e1, v1, sent1) \<Rightarrow>
          (case handleVoiceUpdate mv st v1 q of
             (e2, v2, sent2) \<Rightarrow> (v2, sent1 @ sent2)))"

subsection \<open>Concrete states\<close>

definition mkNode :: "NodeState \<Rightarrow> int \<Rightarrow> string option \<Rightarrow> node" where
  "mkNode s p r = \<lparr>state = s, totalPenalties = p, region = r\<rparr>"

text \<open>A store whose node objects \<open>0, 1, ...\<close> are the given ones.\<close>

definition storeOf :: "node list \<Rightarrow> node_store" where
  "storeOf xs = (\<lambda>r. if r < length xs then xs ! r else mkNode IDLE 0 None)"

text \<open>
  The orchestrator as constructed for \<open>n\<close> node options with every catalog
  source disabled, after \<^verbatim>\<open>start('bot')\<close>: the nodes are in registration order.
\<close>

definition registered :: "nat \<Rightarrow> vulkava" where
  "registered n =
     \<lparr>clientId = Some ''bot'', nodes = [0 ..< n], cache = Some [],
      defaultSearchSource = youtube, appleMusic = None, deezer = None, spotify = None,
      players = Map.empty, lastNodeSorting = 0\<rparr>"

text \<open>
  A player of guild \<open>g\<close> as \<^verbatim>\<open>createPlayer\<close> leaves it in \<^verbatim>\<open>this.players\<close>:
  neither fact stored yet, owning node \<open>n\<close>.
\<close>

definition session :: "string \<Rightarrow> node_ref option \<Rightarrow> player" where
  "session g n =
     \<lparr>guildId = g, voiceChannelId = ''voice'', sessionId = None, event = None,
      node = n, pstate = P_CONNECTING\<rparr>"

definition withSession :: "player \<Rightarrow> vulkava \<Rightarrow> vulkava" where
  "withSession p v = v\<lparr>players := (players v)(guildId p \<mapsto> p)\<rparr>"

text \<open>The two gateway events for guild \<open>g\<close>, addressed to the client \<^verbatim>\<open>'bot'\<close>.\<close>

definition stateUpdate :: "string \<Rightarrow> string \<Rightarrow> payload" where
  "stateUpdate g sid = \<lparr>op = 0, body = VOICE_STATE_UPDATE (Some g) ''bot'' sid None\<rparr>"

definition assignment :: "string \<Rightarrow> string option \<Rightarrow> voice_server_data" where
  "assignment g ep = \<lparr>token = ''tok'', guild_id = Some g, endpoint = ep\<rparr>"

definition serverUpdate :: "string \<Rightarrow> string option \<Rightarrow> payload" where
  "serverUpdate g ep = \<lparr>op = 0, body = VOICE_SERVER_UPDATE (assignment g ep)\<rparr>"

text \<open>
  A stand-in for \<^verbatim>\<open>Player.moveNode\<close> where a concrete state needs one: it
  reassigns the node and sends nothing. The concrete states below never reach it.
\<close>

definition reassign :: moveNode_impl where
  "reassign st p n = (None, p\<lparr>node := Some n\<rparr>, [])"

text \<open>
  A Deezer collaborator that knows one track and one album, a stand-in for
  \<^verbatim>\<open>new Track(t)\<close> that takes the duration from the track info, and an
  environment in which the only catalog address is a Deezer track address
  (on which \<^verbatim>\<open>DEEZER_REGEX\<close> captures \<^verbatim>\<open>track\<close> and the digits, and the other two
  patterns do not match) and in which every node answers each load request
  with a playlist of two tracks whose reported total is wrong.
\<close>

definition exampleDeezer :: Deezer where
  "exampleDeezer =
     \<lparr>dz_getTrack = (\<lambda>i. Inr \<lparr>title = ''One More Time'', duration = Finite 320000\<rparr>),
      dz_getAlbum = (\<lambda>i. Inr \<lparr>tl_title = ''Discovery'',
         tl_tracks = [\<lparr>title = ''One More Time'', duration = Finite 320000\<rparr>,
                      \<lparr>title = ''Aerodynamic'', duration = Finite 212000\<rparr>]\<rparr>),
      dz_getPlaylist = (\<lambda>i. Inl (RemoteError ''not found''))\<rparr>"

definition plainTrack :: "itrack \<Rightarrow> track" where
  "plainTrack t = \<lparr>title = encoded t, duration = info_length t\<rparr>"

definition examplePlaylist :: LoadTracksResult where
  "examplePlaylist =
     \<lparr>lt_loadType = PLAYLIST_LOADED,
      lt_playlistInfo = \<lparr>pl_name = Some ''mix'', pl_duration = Some (Finite 1), selectedTrack = Some 0\<rparr>,
      lt_tracks = [\<lparr>encoded = ''QAAA'', info_length = Finite 1000\<rparr>,
                   \<lparr>encoded = ''QAAB'', info_length = Finite 2000\<rparr>]\<rparr>"

text \<open>
  A node answer whose two tracks last \<open>2\<^sup>5\<^sup>3\<close> and 1 milliseconds, and the
  environment in which every node gives that answer.
\<close>

definition hugePlaylist :: LoadTracksResult where
  "hugePlaylist =
     \<lparr>lt_loadType = PLAYLIST_LOADED,
      lt_playlistInfo = \<lparr>pl_name = Some ''long'', pl_duration = None, selectedTrack = Some 0\<rparr>,
      lt_tracks = [\<lparr>encoded = ''QAAC'', info_length = Finite 9007199254740992\<rparr>,
                   \<lparr>encoded = ''QAAD'', info_length = Finite 1\<rparr>]\<rparr>"

definition exampleEnv :: env where
  "exampleEnv =
     \<lparr>APPLE_MUSIC_REGEX = (\<lambda>q. None),
      DEEZER_REGEX =
        (\<lambda>q. if q = ''https://www.deezer.com/track/3135556''
              then Some (''track'', ''3135556'') else None),
      SPOTIFY_REGEX = (\<lambda>q. None),
      request = (\<lambda>n q. Inr examplePlaylist),
      newTrack = plainTrack\<rparr>"

definition hugeEnv :: env where
  "hugeEnv = exampleEnv\<lparr>request := (\<lambda>n q. Inr hugePlaylist)\<rparr>"

section \<open>Properties of the numbers\<close>

text \<open>
  An integer of magnitude at most \<open>2\<^sup>5\<^sup>3\<close> is a double, so a sum of two
  non-negative integers that stays within that bound is exact.
\<close>

lemma roundHalfEven_of_int [simp]: "roundHalfEven (of_int m) = m"
  by (simp add: roundHalfEven_def)

lemma ilog2_of_int:
  assumes "0 < n"
  shows "ilog2 (of_int n) = bitlen n - 1"
proof -
  have b: "1 \<le> bitlen n" using assms by (auto simp: bitlen_alt_def)
  have "(2::int) ^ nat (bitlen n - 1) \<le> n" using bitlen_bounds [OF assms] by simp
  then have "(of_int ((2::int) ^ nat (bitlen n - 1)) :: rat) \<le> of_int n"
    by (simp only: of_int_le_iff)
  then have "pow2 (bitlen n - 1) \<le> of_int n" using b by (simp add: pow2_def)
  moreover have "bitlen 1 = 1" by (simp add: bitlen_alt_def)
  ultimately show ?thesis by (simp add: ilog2_def Let_def)
qed

lemma bitlen_small:
  assumes "0 < n" and "n \<le> 2 ^ 53"
  shows "bitlen n - 1 \<le> 53"
proof -
  define k where "k = nat (bitlen n - 1)"
  have "(2::int) ^ k \<le> n" using bitlen_bounds [OF assms(1)] by (simp add: k_def)
  then have le: "(2::int) ^ k \<le> 2 ^ 53" using assms(2) by (rule order_trans)
  have "k \<le> 53"
  proof (rule power_le_imp_le_exp [of "2::int"])
    show "1 < (2::int)" by simp
    show "(2::int) ^ k \<le> 2 ^ 53" by (rule le)
  qed
  then show ?thesis unfolding k_def by linarith
qed

lemma pow2_neg: "e \<le> 0 \<Longrightarrow> pow2 e = 1 / 2 ^ nat (- e)"
  by (cases "e = 0") (simp_all add: pow2_def)

lemma scaled_back:
  assumes "e \<le> 0"
  shows "of_int (roundHalfEven (of_int n / pow2 e)) * pow2 e = (of_int n :: rat)"
proof -
  define j where "j = nat (- e)"
  have p: "pow2 e = 1 / 2 ^ j" using assms by (simp add: pow2_neg j_def)
  have "(of_int n :: rat) / pow2 e = of_int (n * 2 ^ j)" by (simp add: p)
  then have "roundHalfEven (of_int n / pow2 e) = n * 2 ^ j"
    by (simp only: roundHalfEven_of_int)
  then show ?thesis by (simp add: p)
qed

lemma scaled_back_top:
  "of_int (roundHalfEven (of_int (2 ^ 53) / pow2 1)) * pow2 1 = (of_int (2 ^ 53) :: rat)"
proof -
  have p: "pow2 1 = 2" by (simp add: pow2_def)
  have "(of_int (2 ^ 53) :: rat) / 2 = of_int (2 ^ 52)" by simp
  then have "roundHalfEven (of_int (2 ^ 53) / 2) = 2 ^ 52" by (simp only: roundHalfEven_of_int)
  then show ?thesis by (simp add: p)
qed

lemma roundToDouble_pos_int:
  assumes "0 < n" and "n \<le> 2 ^ 53"
  shows "roundToDouble (of_int n) = Finite (of_int n)"
proof -
  define k where "k = bitlen n - 1"
  define e where "e = k - 52"
  have k0: "0 \<le> k" using assms(1) by (auto simp: bitlen_alt_def k_def)
  have k53: "k \<le> 53" unfolding k_def using assms by (rule bitlen_small)
  have il: "ilog2 (of_int n) = k" unfolding k_def using assms(1) by (rule ilog2_of_int)
  have emax: "max (ilog2 (of_int n) - 52) (- 1074) = e"
    using k0 by (simp add: il e_def)
  have small: "(of_int n :: rat) < 2 ^ 1024"
  proof -
    have "(2::int) ^ 53 < 2 ^ 1024" by (rule power_strict_increasing) simp_all
    with assms(2) have "n < 2 ^ 1024" by (rule le_less_trans)
    then have "(of_int n :: rat) < of_int (2 ^ 1024)" by (simp only: of_int_less_iff)
    then show ?thesis by simp
  qed
  have r: "of_int (roundHalfEven (of_int n / pow2 e)) * pow2 e = (of_int n :: rat)"
  proof (cases "e \<le> 0")
    case True
    then show ?thesis by (rule scaled_back)
  next
    case False
    with k53 have e1: "e = 1" and k: "k = 53" unfolding e_def by linarith+
    have "(2::int) ^ nat (bitlen n - 1) \<le> n" using bitlen_bounds [OF assms(1)] by simp
    then have "(2::int) ^ 53 \<le> n" using k unfolding k_def by simp
    with assms(2) have n: "n = 2 ^ 53" by (rule order_antisym)
    show ?thesis unfolding e1 n by (rule scaled_back_top)
  qed
  have nz: "((of_int n :: rat) = 0) = False" and pos: "((0 :: rat) < of_int n) = True"
    and ab: "\<bar>of_int n :: rat\<bar> = of_int n"
    using assms(1) by simp_all
  have nle: "((2::rat) ^ 1024 \<le> of_int n) = False" using small by (simp only: not_le [symmetric])
  show ?thesis
    unfolding roundToDouble_def Let_def ab emax r by (simp only: nz pos nle if_False if_True)
qed

lemma roundToDouble_nonneg_int:
  assumes "0 \<le> n" and "n \<le> 2 ^ 53"
  shows "roundToDouble (of_int n) = Finite (of_int n)"
proof (cases "n = 0")
  case True
  then show ?thesis by (simp add: roundToDouble_def)
next
  case False
  with assms(1) have "0 < n" by simp
  then show ?thesis using assms(2) by (rule roundToDouble_pos_int)
qed

lemma jsAdd_exact:
  assumes "0 \<le> a" and "0 \<le> b" and "a + b \<le> 2 ^ 53"
  shows "jsAdd (Finite (of_int a)) (Finite (of_int b)) = Finite (of_int (a + b))"
proof -
  have "0 \<le> a + b" using assms(1,2) by simp
  then have "roundToDouble (of_int (a + b)) = Finite (of_int (a + b))"
    using assms(3) by (rule roundToDouble_nonneg_int)
  then show ?thesis by (simp only: jsAdd.simps of_int_add)
qed

text \<open>Past \<open>2\<^sup>5\<^sup>3\<close> the sum is rounded: \<open>2\<^sup>5\<^sup>3 + 1\<close> is \<open>2\<^sup>5\<^sup>3\<close> again.\<close>

lemma jsAdd_rounds: "jsAdd (Finite 9007199254740992) (Finite 1) = Finite 9007199254740992"
  by code_simp

lemma foldl_jsAdd_exact:
  assumes "map duration ts = map (\<lambda>d. Finite (of_int d)) ds"
    and "\<forall>d \<in> set ds. 0 \<le> d" and "0 \<le> a" and "a + sum_list ds \<le> 2 ^ 53"
  shows "foldl (\<lambda>acc curr. jsAdd acc (duration curr)) (Finite (of_int a)) ts
           = Finite (of_int (a + sum_list ds))"
  using assms
proof (induction ts arbitrary: ds a)
  case Nil
  then show ?case by simp
next
  case (Cons t ts)
  then obtain d ds' where ds: "ds = d # ds'" by (cases ds) auto
  have d: "duration t = Finite (of_int d)" and rest: "map duration ts = map (\<lambda>d. Finite (of_int d)) ds'"
    using Cons.prems(1) ds by simp_all
  have d0: "0 \<le> d" and ds0: "\<forall>d \<in> set ds'. 0 \<le> d" using Cons.prems(2) ds by simp_all
  have "0 \<le> sum_list ds'" using ds0 by (simp add: sum_list_nonneg)
  then have ad: "a + d \<le> 2 ^ 53" using Cons.prems(4) ds by simp
  have step: "jsAdd (Finite (of_int a)) (duration t) = Finite (of_int (a + d))"
    unfolding d using Cons.prems(3) d0 ad by (rule jsAdd_exact)
  have "0 \<le> a + d" using Cons.prems(3) d0 by simp
  moreover have "a + d + sum_list ds' \<le> 2 ^ 53" using Cons.prems(4) ds by simp
  ultimately have "foldl (\<lambda>acc curr. jsAdd acc (duration curr)) (Finite (of_int (a + d))) ts
           = Finite (of_int (a + d + sum_list ds'))"
    using Cons.IH [OF rest ds0] by blast
  then show ?case using step ds by (simp add: add.assoc)
qed

lemma totalDuration_exact:
  assumes "map duration ts = map (\<lambda>d. Finite (of_int d)) ds"
    and "\<forall>d \<in> set ds. 0 \<le> d" and "sum_list ds \<le> 2 ^ 53"
  shows "totalDuration ts = Finite (of_int (sum_list ds))"
  using foldl_jsAdd_exact [OF assms(1,2), of 0] assms(3) by (simp add: totalDuration_def)

section \<open>Properties of node selection\<close>

subsection \<open>The branches of the getter\<close>

lemma bestNode_rescan:
  "\<not> now < lastNodeSorting v + 30000 \<Longrightarrow> bestNode now st v = Some (rescan st v)"
  by (subst bestNode.simps) (simp add: rescan_def Let_def split: list.splits)

lemma bestNode_cached:
  "now < lastNodeSorting v + 30000 \<Longrightarrow> nodes v = n # ns \<Longrightarrow> state (st n) = CONNECTED
     \<Longrightarrow> bestNode now st v = Some (Inr n, v)"
  by (subst bestNode.simps) simp

lemma bestNode_cached_empty:
  "now < lastNodeSorting v + 30000 \<Longrightarrow> nodes v = [] \<Longrightarrow> bestNode now st v = Some (Inl TypeError, v)"
  by (subst bestNode.simps) simp

lemma bestNode_reset:
  "now < lastNodeSorting v + 30000 \<Longrightarrow> nodes v = n # ns \<Longrightarrow> state (st n) \<noteq> CONNECTED
     \<Longrightarrow> bestNode now st v = bestNode now st (v\<lparr>lastNodeSorting := 0\<rparr>)"
  by (subst bestNode.simps) simp

lemma bestNode_no_result:
  assumes "bestNode now st v = Some y"
  shows "\<not> (now < 30000 \<and> now < lastNodeSorting v + 30000 \<and> nodes v \<noteq> []
            \<and> state (st (hd (nodes v))) \<noteq> CONNECTED)"
proof (rule bestNode.raw_induct
    [where P = "\<lambda>now st v y. \<not> (now < 30000 \<and> now < lastNodeSorting v + 30000 \<and> nodes v \<noteq> []
            \<and> state (st (hd (nodes v))) \<noteq> CONNECTED)", OF _ assms])
  fix f :: "int \<Rightarrow> node_store \<Rightarrow> vulkava \<Rightarrow> ((error + node_ref) \<times> vulkava) option"
    and now st v y
  assume IH: "\<And>now st v y. f now st v = Some y \<Longrightarrow>
      \<not> (now < 30000 \<and> now < lastNodeSorting v + 30000 \<and> nodes v \<noteq> []
            \<and> state (st (hd (nodes v))) \<noteq> CONNECTED)"
    and step: "(if now < lastNodeSorting v + 30000
      then case nodes v of [] \<Rightarrow> Some (Inl TypeError, v)
           | n # x \<Rightarrow>
               if state (st n) = CONNECTED then Some (Inr n, v)
               else f now st (v\<lparr>lastNodeSorting := 0\<rparr>)
      else let v' = v\<lparr>nodes := sort_key (\<lambda>r. totalPenalties (st r)) (nodes v)\<rparr>
           in case nodes v' of [] \<Rightarrow> Some (Inl NoAvailableNode, v')
              | n # x \<Rightarrow>
                  if state (st n) \<noteq> CONNECTED
                  then Some (Inl NoAvailableNode, v')
                  else Some (Inr n, v')) = Some y"
  show "\<not> (now < 30000 \<and> now < lastNodeSorting v + 30000 \<and> nodes v \<noteq> []
            \<and> state (st (hd (nodes v))) \<noteq> CONNECTED)"
  proof
    assume h: "now < 30000 \<and> now < lastNodeSorting v + 30000 \<and> nodes v \<noteq> []
            \<and> state (st (hd (nodes v))) \<noteq> CONNECTED"
    then obtain n ns where ns: "nodes v = n # ns" by (cases "nodes v") auto
    with h step have "f now st (v\<lparr>lastNodeSorting := 0\<rparr>) = Some y" by simp
    from IH [OF this] h ns show False by simp
  qed
qed

lemma bestNode_diverges:
  "now < 30000 \<Longrightarrow> now < lastNodeSorting v + 30000 \<Longrightarrow> nodes v = n # ns
     \<Longrightarrow> state (st n) \<noteq> CONNECTED \<Longrightarrow> bestNode now st v = None"
  using bestNode_no_result [of now st v] by (cases "bestNode now st v") auto

text \<open>At a clock reading of at least thirty seconds the getter always returns.\<close>

lemma bestNode_returns:
  assumes "\<not> now < 30000"
  shows "\<exists>y. bestNode now st v = Some y"
proof (cases "now < lastNodeSorting v + 30000")
  case False
  then show ?thesis by (simp add: bestNode_rescan)
next
  case True
  show ?thesis
  proof (cases "nodes v")
    case Nil
    with True show ?thesis by (simp add: bestNode_cached_empty)
  next
    case (Cons n ns)
    show ?thesis
    proof (cases "state (st n) = CONNECTED")
      case True
      with \<open>now < lastNodeSorting v + 30000\<close> Cons show ?thesis by (simp add: bestNode_cached)
    next
      case False
      have "bestNode now st v = bestNode now st (v\<lparr>lastNodeSorting := 0\<rparr>)"
        using \<open>now < lastNodeSorting v + 30000\<close> Cons False by (rule bestNode_reset)
      also have "\<dots> = Some (rescan st (v\<lparr>lastNodeSorting := 0\<rparr>))"
        using assms by (simp add: bestNode_rescan)
      finally show ?thesis by simp
    qed
  qed
qed

lemma hd_sort_key_least:
  assumes "xs \<noteq> []" and "x \<in> set xs"
  shows "f (hd (sort_key f xs)) \<le> f x"
proof -
  obtain y ys where ys: "sort_key f xs = y # ys"
    using assms(1) by (cases "sort_key f xs") (auto dest: arg_cong [where f = length])
  have "sorted (map f (y # ys))" using sorted_sort_key [of f xs] ys by simp
  moreover have "x \<in> set (y # ys)" using assms(2) ys set_sort [of f xs] by simp
  ultimately show ?thesis using ys by auto
qed

lemma hd_sort_key_in_set: "xs \<noteq> [] \<Longrightarrow> hd (sort_key f xs) \<in> set xs"
  by (metis hd_in_set length_0_conv length_sort set_sort)

lemma hd_sort_key_first:
  assumes "xs \<noteq> []"
  shows "hd (sort_key f xs) = hd (filter (\<lambda>y. f y = f (hd (sort_key f xs))) xs)"
proof -
  obtain y ys where ys: "sort_key f xs = y # ys"
    using assms by (cases "sort_key f xs") (auto dest: arg_cong [where f = length])
  have "filter (\<lambda>z. f z = f y) xs = filter (\<lambda>z. f z = f y) (sort_key f xs)"
    by (simp add: sort_key_stable)
  also have "\<dots> = y # filter (\<lambda>z. f z = f y) ys" by (simp add: ys)
  finally show ?thesis by (simp add: ys)
qed


lemma registered_is_constructed:
  "0 < n \<Longrightarrow>
   map_sum id (start ''bot'')
     (constructor \<lparr>o_nodes = replicate n None, o_defaultSearchSource = None,
        o_disabledSources = Some [''APPLE_MUSIC'', ''DEEZER'', ''SPOTIFY'']\<rparr> am dz sp)
   = Inr (registered n)"
  by (simp add: constructor_def start_def registered_def)

lemma lowestNodes_eq:
  assumes "nodes v \<noteq> []"
  shows "lowestNodes st v =
    filter (\<lambda>r. totalPenalties (st r) =
        totalPenalties (st (hd (sort_key (\<lambda>r. totalPenalties (st r)) (nodes v))))) (nodes v)"
  unfolding lowestNodes_def
proof (rule filter_cong [OF refl])
  fix x assume x: "x \<in> set (nodes v)"
  let ?f = "\<lambda>r. totalPenalties (st r)"
  let ?h = "hd (sort_key ?f (nodes v))"
  have hin: "?h \<in> set (nodes v)" using assms by (rule hd_sort_key_in_set)
  have least: "\<And>y. y \<in> set (nodes v) \<Longrightarrow> ?f ?h \<le> ?f y"
    using assms by (rule hd_sort_key_least)
  show "(\<forall>r' \<in> set (nodes v). ?f x \<le> ?f r') = (?f x = ?f ?h)"
  proof
    assume "\<forall>r' \<in> set (nodes v). ?f x \<le> ?f r'"
    with hin have "?f x \<le> ?f ?h" by blast
    with least [OF x] show "?f x = ?f ?h" by simp
  next
    assume "?f x = ?f ?h"
    with least show "\<forall>r' \<in> set (nodes v). ?f x \<le> ?f r'" by simp
  qed
qed

lemma hd_sorted_is_first_lowest:
  "nodes v \<noteq> [] \<Longrightarrow> hd (sort_key (\<lambda>r. totalPenalties (st r)) (nodes v)) = hd (lowestNodes st v)"
  using hd_sort_key_first [of "nodes v" "\<lambda>r. totalPenalties (st r)"]
  by (simp add: lowestNodes_eq)

lemma lowestNodes_nonempty: "nodes v \<noteq> [] \<Longrightarrow> lowestNodes st v \<noteq> []"
proof -
  assume ne: "nodes v \<noteq> []"
  let ?f = "\<lambda>r. totalPenalties (st r)"
  have "hd (sort_key ?f (nodes v)) \<in> set (lowestNodes st v)"
    using hd_sort_key_in_set [OF ne, of ?f] by (simp add: lowestNodes_eq [OF ne])
  then show ?thesis by auto
qed

lemma rescan_first_lowest:
  assumes "nodes v \<noteq> []" and "state (st (hd (lowestNodes st v))) = CONNECTED"
  shows "rescan st v =
     (Inr (hd (lowestNodes st v)), v\<lparr>nodes := sort_key (\<lambda>r. totalPenalties (st r)) (nodes v)\<rparr>)"
proof -
  let ?f = "\<lambda>r. totalPenalties (st r)"
  obtain y ys where ys: "sort_key ?f (nodes v) = y # ys"
    using assms(1) by (cases "sort_key ?f (nodes v)") (auto dest: arg_cong [where f = length])
  have "y = hd (lowestNodes st v)"
    using hd_sorted_is_first_lowest [OF assms(1), of st] ys by simp
  with assms(2) ys show ?thesis by (simp add: rescan_def)
qed

lemma bestNode_changes:
  assumes "bestNode now st v = Some (r, v')"
  shows "\<exists>ns t. v' = v\<lparr>nodes := ns, lastNodeSorting := t\<rparr> \<and> (t = lastNodeSorting v \<or> t = 0)"
proof (cases "now < lastNodeSorting v + 30000")
  case False
  then have "rescan st v = (r, v')" using assms by (simp add: bestNode_rescan)
  then have "v' = v\<lparr>nodes := sort_key (\<lambda>r. totalPenalties (st r)) (nodes v),
      lastNodeSorting := lastNodeSorting v\<rparr>"
    by (auto simp add: rescan_def Let_def split: list.splits if_splits)
  then show ?thesis by blast
next
  case True
  show ?thesis
  proof (cases "nodes v")
    case Nil
    then have "v' = v\<lparr>nodes := nodes v, lastNodeSorting := lastNodeSorting v\<rparr>"
      using assms True by (simp add: bestNode_cached_empty)
    then show ?thesis by blast
  next
    case (Cons n ns)
    show ?thesis
    proof (cases "state (st n) = CONNECTED")
      case c: True
      then have "v' = v\<lparr>nodes := nodes v, lastNodeSorting := lastNodeSorting v\<rparr>"
        using assms True Cons by (simp add: bestNode_cached)
      then show ?thesis by blast
    next
      case nc: False
      have late: "\<not> now < 30000"
      proof
        assume "now < 30000"
        then have "bestNode now st v = None" using True Cons nc by (rule bestNode_diverges)
        with assms show False by simp
      qed
      have "bestNode now st (v\<lparr>lastNodeSorting := 0\<rparr>) = Some (r, v')"
        using bestNode_reset [of now v n ns st] True Cons nc assms by simp
      then have "rescan st (v\<lparr>lastNodeSorting := 0\<rparr>) = (r, v')"
        using late by (simp add: bestNode_rescan)
      then have "v' = v\<lparr>nodes := sort_key (\<lambda>r. totalPenalties (st r)) (nodes v),
          lastNodeSorting := 0\<rparr>"
        by (auto simp add: rescan_def Let_def split: list.splits if_splits)
      then show ?thesis by blast
    qed
  qed
qed

lemma bestNode_frame:
  assumes "bestNode now st v = Some (r, v')"
  shows "\<exists>ns t. v' = v\<lparr>nodes := ns, lastNodeSorting := t\<rparr>"
  using bestNode_changes [OF assms] by blast

text \<open>
  The timestamp is only ever assigned 0, so from the constructor on the test
  of line 184 is false at every clock reading of at least thirty seconds, and
  every call rescans.
\<close>

lemma lastNodeSorting_stays_zero:
  assumes "lastNodeSorting v = 0" and "bestNode now st v = Some (r, v')"
  shows "lastNodeSorting v' = 0"
proof -
  obtain ns t where v': "v' = v\<lparr>nodes := ns, lastNodeSorting := t\<rparr>"
    and t: "t = lastNodeSorting v \<or> t = 0"
    using bestNode_changes [OF assms(2)] by blast
  then show ?thesis using assms(1) by auto
qed



text \<open>
  C2. The claim: every rescan refreshes the cache timestamp, so that a second
  call within thirty seconds returns the same node unless that node's state
  changed. No statement of the getter assigns the clock reading to
  \<^verbatim>\<open>lastNodeSorting\<close>. Evaluated on two CONNECTED nodes with penalties 3 and 1:
  the call returns node 1 and leaves the timestamp at 0; one second later,
  with node 1 still CONNECTED but its penalty risen to 5, the getter rescans
  and returns node 0.
\<close>

theorem C2_timestamp_never_refreshed:
  "bestNode 1700000000000 (storeOf [mkNode CONNECTED 3 None, mkNode CONNECTED 1 None])
       (registered 2) = Some (Inr 1, (registered 2)\<lparr>nodes := [1, 0]\<rparr>)
   \<and> lastNodeSorting ((registered 2)\<lparr>nodes := [1, 0]\<rparr>) = 0
   \<and> state (storeOf [mkNode CONNECTED 3 None, mkNode CONNECTED 5 None] 1) = CONNECTED
   \<and> bestNode 1700000001000 (storeOf [mkNode CONNECTED 3 None, mkNode CONNECTED 5 None])
       ((registered 2)\<lparr>nodes := [1, 0]\<rparr>) = Some (Inr 0, registered 2)"
  by (simp add: bestNode_rescan rescan_def registered_def storeOf_def mkNode_def numeral_2_eq_2)

text \<open>
  C8, as stated, fails: the array is sorted in place, so once an earlier call
  has put node 1 before node 0, a later tie between the two is won by node 1,
  which was registered second.
\<close>

theorem C8_counterexample:
  "nodes (registered 2) = [0, 1]
   \<and> bestNode 1700000000000 (storeOf [mkNode CONNECTED 2 None, mkNode CONNECTED 1 None])
       (registered 2) = Some (Inr 1, (registered 2)\<lparr>nodes := [1, 0]\<rparr>)
   \<and> lowestNodes (storeOf [mkNode CONNECTED 1 None, mkNode CONNECTED 1 None])
       ((registered 2)\<lparr>nodes := [1, 0]\<rparr>) = [1, 0]
   \<and> bestNode 1700000001000 (storeOf [mkNode CONNECTED 1 None, mkNode CONNECTED 1 None])
       ((registered 2)\<lparr>nodes := [1, 0]\<rparr>) = Some (Inr 1, (registered 2)\<lparr>nodes := [1, 0]\<rparr>)"
  by (simp add: bestNode_rescan rescan_def registered_def storeOf_def mkNode_def lowestNodes_def
      numeral_2_eq_2)

text \<open>
  C8, amended. On a rescan of a non-empty pool in which every node with the
  lowest penalty score is CONNECTED, \<^verbatim>\<open>bestNode\<close> returns the first of these nodes
  in the current order of the array (the registration order only as long as no
  sort has permuted it), and every further call with the same penalties and
  states, at whatever clock reading, returns that node again and leaves the
  pool as it is.
\<close>

theorem C8_tie_break_by_current_order:
  assumes "\<not> now < lastNodeSorting v + 30000"
    and "nodes v \<noteq> []"
    and "\<forall>r \<in> set (lowestNodes st v). state (st r) = CONNECTED"
  shows "\<exists>v'. bestNode now st v = Some (Inr (hd (lowestNodes st v)), v')
           \<and> (\<forall>now'. bestNode now' st v' = Some (Inr (hd (lowestNodes st v)), v'))"
proof -
  let ?f = "\<lambda>r. totalPenalties (st r)"
  let ?b = "hd (lowestNodes st v)"
  let ?v' = "v\<lparr>nodes := sort_key ?f (nodes v)\<rparr>"
  have conn: "state (st ?b) = CONNECTED"
    using assms(3) lowestNodes_nonempty [OF assms(2), of st] by simp
  have first: "bestNode now st v = Some (Inr ?b, ?v')"
    using assms(2) conn by (simp add: bestNode_rescan [OF assms(1)] rescan_first_lowest)
  obtain y ys where ys: "sort_key ?f (nodes v) = y # ys"
    using assms(2) by (cases "sort_key ?f (nodes v)") (auto dest: arg_cong [where f = length])
  have yb: "y = ?b" using hd_sorted_is_first_lowest [OF assms(2), of st] ys by simp
  have idem: "sort_key ?f (sort_key ?f (nodes v)) = sort_key ?f (nodes v)"
    by (rule sort_key_id_if_sorted) (rule sorted_sort_key)
  have again: "bestNode now' st ?v' = Some (Inr ?b, ?v')" for now'
  proof (cases "now' < lastNodeSorting ?v' + 30000")
    case True
    then show ?thesis using bestNode_cached [of now' ?v' y ys st] ys yb conn by simp
  next
    case False
    then show ?thesis
      using bestNode_rescan [of now' ?v' st] ys yb conn idem by (simp add: rescan_def)
  qed
  from first again show ?thesis by blast
qed

theorem C8_tie_break_witness:
  "\<exists>v'. bestNode 1700000001000 (storeOf [mkNode CONNECTED 1 None, mkNode CONNECTED 1 None])
            ((registered 2)\<lparr>nodes := [1, 0]\<rparr>) = Some (Inr 1, v')
        \<and> (\<forall>now'. bestNode now' (storeOf [mkNode CONNECTED 1 None, mkNode CONNECTED 1 None]) v'
              = Some (Inr 1, v'))"
  using C8_tie_break_by_current_order [of 1700000001000 "(registered 2)\<lparr>nodes := [1, 0]\<rparr>"
      "storeOf [mkNode CONNECTED 1 None, mkNode CONNECTED 1 None]"]
  by (simp add: lowestNodes_def registered_def storeOf_def mkNode_def)

section \<open>Properties of the voice updates\<close>

subsection \<open>The branches of the handler\<close>

lemma players_update_same: "players v g = Some pl \<Longrightarrow> v\<lparr>players := (players v)(g \<mapsto> pl)\<rparr> = v"
  by (simp add: fun_upd_idem)

lemma state_update_stores:
  assumes "g \<noteq> []" and "players v g = Some pl" and "clientId v = Some uid" and "event pl = None"
  shows "handleVoiceUpdate mv st v \<lparr>op = 0, body = VOICE_STATE_UPDATE (Some g) uid sid ch\<rparr> =
     (None,
      v\<lparr>players := (players v)(g \<mapsto>
          (if truthy ch then pl\<lparr>sessionId := Some sid, voiceChannelId := the ch\<rparr>
           else pl\<lparr>sessionId := Some sid\<rparr>))\<rparr>, [])"
  using assms by (simp add: handleVoiceUpdate_def Let_def truthy_def)

lemma state_update_sends:
  assumes "g \<noteq> []" and "players v g = Some pl" and "clientId v = Some uid" and "event pl \<noteq> None"
  shows "handleVoiceUpdate mv st v \<lparr>op = 0, body = VOICE_STATE_UPDATE (Some g) uid sid ch\<rparr> =
     (let pl2 = (if truthy ch then pl\<lparr>sessionId := Some sid, voiceChannelId := the ch\<rparr>
                 else pl\<lparr>sessionId := Some sid\<rparr>);
          v' = v\<lparr>players := (players v)(g \<mapsto> pl2)\<rparr>
      in case sendVoiceUpdate st pl2 of
           Inl e \<Rightarrow> (Some e, v', [])
         | Inr h \<Rightarrow> (None, v', [h]))"
  using assms by (auto simp add: handleVoiceUpdate_def Let_def truthy_def)

lemma server_update_no_node:
  assumes "truthy (guild_id d)" and "players v (the (guild_id d)) = Some pl"
    and "truthy (endpoint d)" and "node pl = None"
  shows "handleVoiceUpdate mv st v \<lparr>op = 0, body = VOICE_SERVER_UPDATE d\<rparr> =
     (Some AssertionFailed,
      v\<lparr>players := (players v)(the (guild_id d) \<mapsto> pl\<lparr>event := Some d, pstate := P_DISCONNECTED\<rparr>)\<rparr>,
      [])"
  using assms by (simp add: handleVoiceUpdate_def Let_def)

lemma server_update_stays:
  assumes "truthy (guild_id d)" and "players v (the (guild_id d)) = Some pl"
    and "truthy (endpoint d)" and "node pl = Some r"
    and "migrationTarget st v r (the (endpoint d)) = None"
  shows "handleVoiceUpdate mv st v \<lparr>op = 0, body = VOICE_SERVER_UPDATE d\<rparr> =
     (let pl1 = pl\<lparr>event := Some d\<rparr>;
          v' = v\<lparr>players := (players v)(the (guild_id d) \<mapsto> pl1)\<rparr>
      in if truthy (sessionId pl) then
           (case sendVoiceUpdate st pl1 of
              Inl e \<Rightarrow> (Some e, v', [])
            | Inr h \<Rightarrow> (None, v', [h]))
         else (None, v', []))"
  using assms by (simp add: handleVoiceUpdate_def Let_def)

lemma server_update_moves:
  assumes "truthy (guild_id d)" and "players v (the (guild_id d)) = Some pl"
    and "truthy (endpoint d)" and "node pl = Some r"
    and "migrationTarget st v r (the (endpoint d)) = Some n"
  shows "handleVoiceUpdate mv st v \<lparr>op = 0, body = VOICE_SERVER_UPDATE d\<rparr> =
     (case mv st (pl\<lparr>event := Some d\<rparr>) n of
        (e, pl2, sent) \<Rightarrow> (e, v\<lparr>players := (players v)(the (guild_id d) \<mapsto> pl2)\<rparr>, sent))"
  using assms by (simp add: handleVoiceUpdate_def Let_def)

lemma no_region_no_target: "\<not> truthy (region (st r)) \<Longrightarrow> migrationTarget st v r ep = None"
  by (simp add: migrationTarget_def)

lemma migrationTarget_players [simp]:
  "migrationTarget st (v\<lparr>players := ps\<rparr>) r ep = migrationTarget st v r ep"
  by (simp add: migrationTarget_def cong del: if_weak_cong)

lemma sendVoiceUpdate_ready:
  "node p = Some r \<Longrightarrow> state (st r) = CONNECTED \<Longrightarrow> sessionId p = Some sid \<Longrightarrow> event p = Some d
    \<Longrightarrow> sendVoiceUpdate st p =
          Inr \<lparr>hs_target = r, hs_guildId = guildId p, hs_sessionId = sid, hs_event = d\<rparr>"
  by (simp add: sendVoiceUpdate_def)

lemma sendVoiceUpdate_unavailable:
  "node p = None \<or> (\<exists>r. node p = Some r \<and> state (st r) \<noteq> CONNECTED)
     \<Longrightarrow> sendVoiceUpdate st p = Inl AssertionFailed"
  by (auto simp add: sendVoiceUpdate_def)

text \<open>
  C5. A server assignment whose endpoint is \<^verbatim>\<open>null\<close> or empty changes nothing,
  returns without an error and sends nothing, whatever the operation code. In
  particular, for a session with neither fact stored, the session id of a
  state update is stored without a handshake, and the empty assignment that
  follows leaves the session with that one fact and sends nothing.
\<close>

theorem C5_empty_endpoint_is_noop:
  assumes "\<not> truthy (endpoint d)"
  shows "handleVoiceUpdate mv st v \<lparr>op = oc, body = VOICE_SERVER_UPDATE d\<rparr> = (None, v, [])
    \<and> (g \<noteq> [] \<and> players v g = Some pl \<and> sessionId pl = None \<and> event pl = None
         \<and> clientId v = Some uid \<longrightarrow>
       (\<exists>v1 pl1.
          handleVoiceUpdate mv st v \<lparr>op = 0, body = VOICE_STATE_UPDATE (Some g) uid sid ch\<rparr>
            = (None, v1, [])
          \<and> handleVoiceUpdate mv st v1 \<lparr>op = oc, body = VOICE_SERVER_UPDATE d\<rparr> = (None, v1, [])
          \<and> players v1 g = Some pl1 \<and> sessionId pl1 = Some sid \<and> event pl1 = None))"
proof -
  have noop: "handleVoiceUpdate mv st w \<lparr>op = oc, body = VOICE_SERVER_UPDATE d\<rparr> = (None, w, [])"
    for w
    using assms by (simp add: handleVoiceUpdate_def Let_def split: option.splits)
  show ?thesis
  proof (intro conjI impI)
    show "handleVoiceUpdate mv st v \<lparr>op = oc, body = VOICE_SERVER_UPDATE d\<rparr> = (None, v, [])"
      by (rule noop)
  next
    assume h: "g \<noteq> [] \<and> players v g = Some pl \<and> sessionId pl = None \<and> event pl = None
         \<and> clientId v = Some uid"
    let ?pl1 = "if truthy ch then pl\<lparr>sessionId := Some sid, voiceChannelId := the ch\<rparr>
           else pl\<lparr>sessionId := Some sid\<rparr>"
    let ?v1 = "v\<lparr>players := (players v)(g \<mapsto> ?pl1)\<rparr>"
    have "handleVoiceUpdate mv st v \<lparr>op = 0, body = VOICE_STATE_UPDATE (Some g) uid sid ch\<rparr>
            = (None, ?v1, [])"
      using h by (simp add: state_update_stores)
    moreover have "players ?v1 g = Some ?pl1" by simp
    moreover have "sessionId ?pl1 = Some sid" by simp
    moreover have "event ?pl1 = None" using h by simp
    ultimately show "\<exists>v1 pl1.
          handleVoiceUpdate mv st v \<lparr>op = 0, body = VOICE_STATE_UPDATE (Some g) uid sid ch\<rparr>
            = (None, v1, [])
          \<and> handleVoiceUpdate mv st v1 \<lparr>op = oc, body = VOICE_SERVER_UPDATE d\<rparr> = (None, v1, [])
          \<and> players v1 g = Some pl1 \<and> sessionId pl1 = Some sid \<and> event pl1 = None"
      using noop [of ?v1] by blast
  qed
qed

theorem C5_empty_endpoint_witness:
  "\<not> truthy (endpoint (assignment ''G1'' (Some [])))
   \<and> handleVoiceUpdate reassign (storeOf [mkNode CONNECTED 0 None])
        (withSession (session ''G1'' (Some 0)) (registered 1)) (serverUpdate ''G1'' (Some []))
      = (None, withSession (session ''G1'' (Some 0)) (registered 1), [])
   \<and> (\<exists>v1 pl1.
        handleVoiceUpdate reassign (storeOf [mkNode CONNECTED 0 None])
            (withSession (session ''G1'' (Some 0)) (registered 1)) (stateUpdate ''G1'' ''S1'')
          = (None, v1, [])
        \<and> handleVoiceUpdate reassign (storeOf [mkNode CONNECTED 0 None]) v1
            (serverUpdate ''G1'' (Some [])) = (None, v1, [])
        \<and> players v1 ''G1'' = Some pl1 \<and> sessionId pl1 = Some ''S1'' \<and> event pl1 = None)"
  using C5_empty_endpoint_is_noop [of "assignment ''G1'' (Some [])" reassign
      "storeOf [mkNode CONNECTED 0 None]" "withSession (session ''G1'' (Some 0)) (registered 1)"
      0 "''G1''" "session ''G1'' (Some 0)" "''bot''" "''S1''" None]
  by (simp add: truthy_def assignment_def serverUpdate_def stateUpdate_def withSession_def
      session_def registered_def)

text \<open>
  C10. For a server assignment with a non-empty endpoint whose session is
  owned by a node without a region label, no migration target is chosen, so
  \<^verbatim>\<open>moveNode\<close> is not called whatever it would do: the assignment is stored, the
  owning node stays, and the handshake is attempted exactly when a non-empty
  session id is stored.
\<close>

theorem C10_no_region_no_migration:
  assumes "truthy (guild_id d)" and "players v (the (guild_id d)) = Some pl"
    and "truthy (endpoint d)" and "node pl = Some r"
    and "\<not> truthy (region (st r))"
  shows "migrationTarget st v r (the (endpoint d)) = None \<and>
    handleVoiceUpdate mv st v \<lparr>op = 0, body = VOICE_SERVER_UPDATE d\<rparr> =
     (let pl1 = pl\<lparr>event := Some d\<rparr>;
          v' = v\<lparr>players := (players v)(the (guild_id d) \<mapsto> pl1)\<rparr>
      in if truthy (sessionId pl) then
           (case sendVoiceUpdate st pl1 of
              Inl e \<Rightarrow> (Some e, v', [])
            | Inr h \<Rightarrow> (None, v', [h]))
         else (None, v', []))
    \<and> node (pl\<lparr>event := Some d\<rparr>) = Some r"
  using assms by (simp add: server_update_stays no_region_no_target)

theorem C10_no_region_witness:
  "migrationTarget (storeOf [mkNode CONNECTED 0 None, mkNode CONNECTED 0 (Some ''USA'')])
       (withSession ((session ''G1'' (Some 0))\<lparr>sessionId := Some ''S1''\<rparr>) (registered 2)) 0
       ''us-east42.discord.media'' = None
   \<and> handleVoiceUpdate reassign
       (storeOf [mkNode CONNECTED 0 None, mkNode CONNECTED 0 (Some ''USA'')])
       (withSession ((session ''G1'' (Some 0))\<lparr>sessionId := Some ''S1''\<rparr>) (registered 2))
       (serverUpdate ''G1'' (Some ''us-east42.discord.media''))
     = (None,
        withSession ((session ''G1'' (Some 0))\<lparr>sessionId := Some ''S1'',
           event := Some (assignment ''G1'' (Some ''us-east42.discord.media''))\<rparr>) (registered 2),
        [\<lparr>hs_target = 0, hs_guildId = ''G1'', hs_sessionId = ''S1'',
          hs_event = assignment ''G1'' (Some ''us-east42.discord.media'')\<rparr>])"
  using C10_no_region_no_migration [of "assignment ''G1'' (Some ''us-east42.discord.media'')"
      "withSession ((session ''G1'' (Some 0))\<lparr>sessionId := Some ''S1''\<rparr>) (registered 2)"
      "(session ''G1'' (Some 0))\<lparr>sessionId := Some ''S1''\<rparr>" 0
      "storeOf [mkNode CONNECTED 0 None, mkNode CONNECTED 0 (Some ''USA'')]" reassign]
  by (simp add: truthy_def assignment_def serverUpdate_def withSession_def session_def
      registered_def storeOf_def mkNode_def sendVoiceUpdate_def)

text \<open>
  C3, as stated, fails: a session that has stored both facts and sent its
  handshake sends the handshake once more when the same session id arrives a
  second time. The three calls below are the session id, the assignment (which
  sends the handshake) and the session id again.
\<close>

theorem C3_counterexample:
  "handleVoiceUpdate reassign (storeOf [mkNode CONNECTED 0 None])
      (withSession (session ''G1'' (Some 0)) (registered 1)) (stateUpdate ''G1'' ''S1'')
     = (None, withSession ((session ''G1'' (Some 0))\<lparr>sessionId := Some ''S1''\<rparr>) (registered 1), [])
   \<and> handleVoiceUpdate reassign (storeOf [mkNode CONNECTED 0 None])
      (withSession ((session ''G1'' (Some 0))\<lparr>sessionId := Some ''S1''\<rparr>) (registered 1))
      (serverUpdate ''G1'' (Some ''rotterdam42.discord.media''))
     = (None,
        withSession ((session ''G1'' (Some 0))\<lparr>sessionId := Some ''S1'',
           event := Some (assignment ''G1'' (Some ''rotterdam42.discord.media''))\<rparr>) (registered 1),
        [\<lparr>hs_target = 0, hs_guildId = ''G1'', hs_sessionId = ''S1'',
          hs_event = assignment ''G1'' (Some ''rotterdam42.discord.media'')\<rparr>])
   \<and> handleVoiceUpdate reassign (storeOf [mkNode CONNECTED 0 None])
      (withSession ((session ''G1'' (Some 0))\<lparr>sessionId := Some ''S1'',
           event := Some (assignment ''G1'' (Some ''rotterdam42.discord.media''))\<rparr>) (registered 1))
      (stateUpdate ''G1'' ''S1'')
     = (None,
        withSession ((session ''G1'' (Some 0))\<lparr>sessionId := Some ''S1'',
           event := Some (assignment ''G1'' (Some ''rotterdam42.discord.media''))\<rparr>) (registered 1),
        [\<lparr>hs_target = 0, hs_guildId = ''G1'', hs_sessionId = ''S1'',
          hs_event = assignment ''G1'' (Some ''rotterdam42.discord.media'')\<rparr>])"
  by (simp add: handleVoiceUpdate_def sendVoiceUpdate_def migrationTarget_def truthy_def
      withSession_def session_def registered_def stateUpdate_def serverUpdate_def assignment_def
      storeOf_def mkNode_def Let_def)

text \<open>
  C3, amended. For a session that holds both facts and whose node is CONNECTED,
  a second delivery of the same session id (with no channel or the stored one)
  leaves the orchestrator as it is and sends the handshake again; a second
  delivery of the same assignment does the same whenever the session id is
  non-empty and the region rule chooses no migration target.
\<close>

theorem C3_duplicate_fact_reemits:
  assumes "g \<noteq> []" and "players v g = Some pl" and "clientId v = Some uid"
    and "sessionId pl = Some sid" and "event pl = Some d" and "guild_id d = Some g"
    and "truthy (endpoint d)" and "node pl = Some r" and "state (st r) = CONNECTED"
    and "\<not> truthy ch \<or> ch = Some (voiceChannelId pl)"
  shows "handleVoiceUpdate mv st v \<lparr>op = 0, body = VOICE_STATE_UPDATE (Some g) uid sid ch\<rparr>
       = (None, v, [\<lparr>hs_target = r, hs_guildId = guildId pl, hs_sessionId = sid, hs_event = d\<rparr>])
    \<and> (sid \<noteq> [] \<and> migrationTarget st v r (the (endpoint d)) = None \<longrightarrow>
        handleVoiceUpdate mv st v \<lparr>op = 0, body = VOICE_SERVER_UPDATE d\<rparr>
          = (None, v, [\<lparr>hs_target = r, hs_guildId = guildId pl, hs_sessionId = sid, hs_event = d\<rparr>]))"
proof -
  have same1: "pl\<lparr>sessionId := Some sid\<rparr> = pl" using assms(4) by simp
  have same2: "truthy ch \<Longrightarrow> pl\<lparr>sessionId := Some sid, voiceChannelId := the ch\<rparr> = pl"
    using assms(4,10) by auto
  have same3: "pl\<lparr>event := Some d\<rparr> = pl" using assms(5) by simp
  have ev: "event pl \<noteq> None" using assms(5) by simp
  have send: "sendVoiceUpdate st pl =
      Inr \<lparr>hs_target = r, hs_guildId = guildId pl, hs_sessionId = sid, hs_event = d\<rparr>"
    using assms by (simp add: sendVoiceUpdate_ready)
  have first: "handleVoiceUpdate mv st v \<lparr>op = 0, body = VOICE_STATE_UPDATE (Some g) uid sid ch\<rparr>
       = (None, v, [\<lparr>hs_target = r, hs_guildId = guildId pl, hs_sessionId = sid, hs_event = d\<rparr>])"
    using same1 same2 send assms(2)
    by (simp add: state_update_sends [OF assms(1,2,3) ev] players_update_same)
  have second: "handleVoiceUpdate mv st v \<lparr>op = 0, body = VOICE_SERVER_UPDATE d\<rparr>
          = (None, v, [\<lparr>hs_target = r, hs_guildId = guildId pl, hs_sessionId = sid, hs_event = d\<rparr>])"
    if "sid \<noteq> []" and "migrationTarget st v r (the (endpoint d)) = None"
    using that assms send
    by (simp add: server_update_stays same3 players_update_same truthy_def)
  from first second show ?thesis by blast
qed

theorem C3_duplicate_fact_witness:
  "handleVoiceUpdate reassign (storeOf [mkNode CONNECTED 0 None])
      (withSession ((session ''G1'' (Some 0))\<lparr>sessionId := Some ''S1'',
           event := Some (assignment ''G1'' (Some ''rotterdam42.discord.media''))\<rparr>) (registered 1))
      \<lparr>op = 0, body = VOICE_STATE_UPDATE (Some ''G1'') ''bot'' ''S1'' None\<rparr>
     = (None,
        withSession ((session ''G1'' (Some 0))\<lparr>sessionId := Some ''S1'',
           event := Some (assignment ''G1'' (Some ''rotterdam42.discord.media''))\<rparr>) (registered 1),
        [\<lparr>hs_target = 0, hs_guildId = ''G1'', hs_sessionId = ''S1'',
          hs_event = assignment ''G1'' (Some ''rotterdam42.discord.media'')\<rparr>])
   \<and> handleVoiceUpdate reassign (storeOf [mkNode CONNECTED 0 None])
      (withSession ((session ''G1'' (Some 0))\<lparr>sessionId := Some ''S1'',
           event := Some (assignment ''G1'' (Some ''rotterdam42.discord.media''))\<rparr>) (registered 1))
      \<lparr>op = 0, body = VOICE_SERVER_UPDATE (assignment ''G1'' (Some ''rotterdam42.discord.media''))\<rparr>
     = (None,
        withSession ((session ''G1'' (Some 0))\<lparr>sessionId := Some ''S1'',
           event := Some (assignment ''G1'' (Some ''rotterdam42.discord.media''))\<rparr>) (registered 1),
        [\<lparr>hs_target = 0, hs_guildId = ''G1'', hs_sessionId = ''S1'',
          hs_event = assignment ''G1'' (Some ''rotterdam42.discord.media'')\<rparr>])"
  using C3_duplicate_fact_reemits [of "''G1''"
      "withSession ((session ''G1'' (Some 0))\<lparr>sessionId := Some ''S1'',
           event := Some (assignment ''G1'' (Some ''rotterdam42.discord.media''))\<rparr>) (registered 1)"
      "(session ''G1'' (Some 0))\<lparr>sessionId := Some ''S1'',
           event := Some (assignment ''G1'' (Some ''rotterdam42.discord.media''))\<rparr>"
      "''bot''" "''S1''" "assignment ''G1'' (Some ''rotterdam42.discord.media'')" 0
      "storeOf [mkNode CONNECTED 0 None]" None reassign]
  by (simp add: truthy_def assignment_def withSession_def session_def registered_def
      storeOf_def mkNode_def migrationTarget_def)

subsection \<open>Both facts, in either order\<close>

lemma deliver_state_then_server:
  assumes "g \<noteq> []" and "players v g = Some pl" and "clientId v = Some uid"
    and "sessionId pl = None" and "event pl = None" and "guild_id d = Some g"
    and "truthy (endpoint d)" and "sid \<noteq> []"
    and "\<forall>r. node pl = Some r \<longrightarrow> migrationTarget st v r (the (endpoint d)) = None"
  shows "deliverBoth mv st v
           \<lparr>op = 0, body = VOICE_STATE_UPDATE (Some g) uid sid ch\<rparr>
           \<lparr>op = 0, body = VOICE_SERVER_UPDATE d\<rparr> =
         (let pl1 = (if truthy ch then pl\<lparr>sessionId := Some sid, voiceChannelId := the ch\<rparr>
                     else pl\<lparr>sessionId := Some sid\<rparr>)
          in case node pl of
               None \<Rightarrow> (v\<lparr>players := (players v)(g \<mapsto> pl1\<lparr>event := Some d, pstate := P_DISCONNECTED\<rparr>)\<rparr>, [])
             | Some r \<Rightarrow>
                 (v\<lparr>players := (players v)(g \<mapsto> pl1\<lparr>event := Some d\<rparr>)\<rparr>,
                  case sendVoiceUpdate st (pl1\<lparr>event := Some d\<rparr>) of Inl e \<Rightarrow> [] | Inr h \<Rightarrow> [h]))"
proof -
  let ?pl1 = "if truthy ch then pl\<lparr>sessionId := Some sid, voiceChannelId := the ch\<rparr>
                     else pl\<lparr>sessionId := Some sid\<rparr>"
  let ?v1 = "v\<lparr>players := (players v)(g \<mapsto> ?pl1)\<rparr>"
  have first: "handleVoiceUpdate mv st v \<lparr>op = 0, body = VOICE_STATE_UPDATE (Some g) uid sid ch\<rparr>
      = (None, ?v1, [])"
    using assms(1-5) by (simp add: state_update_stores)
  have g1: "truthy (guild_id d)" and g2: "the (guild_id d) = g"
    using assms(1,6) by (simp_all add: truthy_def)
  have pl1: "players ?v1 (the (guild_id d)) = Some ?pl1" using g2 by simp
  have sid1: "truthy (sessionId ?pl1)" using assms(8) by (simp add: truthy_def)
  show ?thesis
  proof (cases "node pl")
    case None
    then have "node ?pl1 = None" by simp
    from server_update_no_node [OF g1 pl1 assms(7) this, of mv st] first None g2
    show ?thesis by (simp add: deliverBoth_def)
  next
    case (Some r)
    then have n1: "node ?pl1 = Some r" by simp
    have mt: "migrationTarget st ?v1 r (the (endpoint d)) = None"
      using assms(9) Some by simp
    from server_update_stays [OF g1 pl1 assms(7) n1 mt, of mv] first Some g2 sid1
    show ?thesis by (simp add: deliverBoth_def Let_def split: sum.splits)
  qed
qed

lemma deliver_server_then_state:
  assumes "g \<noteq> []" and "players v g = Some pl" and "clientId v = Some uid"
    and "sessionId pl = None" and "event pl = None" and "guild_id d = Some g"
    and "truthy (endpoint d)"
    and "\<forall>r. node pl = Some r \<longrightarrow> migrationTarget st v r (the (endpoint d)) = None"
  shows "deliverBoth mv st v
           \<lparr>op = 0, body = VOICE_SERVER_UPDATE d\<rparr>
           \<lparr>op = 0, body = VOICE_STATE_UPDATE (Some g) uid sid ch\<rparr> =
         (let pl1 = (if truthy ch then pl\<lparr>sessionId := Some sid, voiceChannelId := the ch\<rparr>
                     else pl\<lparr>sessionId := Some sid\<rparr>)
          in case node pl of
               None \<Rightarrow> (v\<lparr>players := (players v)(g \<mapsto> pl1\<lparr>event := Some d, pstate := P_DISCONNECTED\<rparr>)\<rparr>, [])
             | Some r \<Rightarrow>
                 (v\<lparr>players := (players v)(g \<mapsto> pl1\<lparr>event := Some d\<rparr>)\<rparr>,
                  case sendVoiceUpdate st (pl1\<lparr>event := Some d\<rparr>) of Inl e \<Rightarrow> [] | Inr h \<Rightarrow> [h]))"
proof -
  have g1: "truthy (guild_id d)" and g2: "the (guild_id d) = g"
    using assms(1,6) by (simp_all add: truthy_def)
  have pl0: "players v (the (guild_id d)) = Some pl" using g2 assms(2) by simp
  have nosid: "\<not> truthy (sessionId pl)" using assms(4) by (simp add: truthy_def)
  show ?thesis
  proof (cases "node pl")
    case None
    let ?pl1 = "pl\<lparr>event := Some d, pstate := P_DISCONNECTED\<rparr>"
    let ?v1 = "v\<lparr>players := (players v)(g \<mapsto> ?pl1)\<rparr>"
    have first: "handleVoiceUpdate mv st v \<lparr>op = 0, body = VOICE_SERVER_UPDATE d\<rparr>
        = (Some AssertionFailed, ?v1, [])"
      using server_update_no_node [OF g1 pl0 assms(7) None, of mv st] g2 by simp
    have "players ?v1 g = Some ?pl1" and "clientId ?v1 = Some uid" and "event ?pl1 \<noteq> None"
      using assms(3) by simp_all
    from state_update_sends [OF assms(1) this, of mv st sid ch] first None
    show ?thesis
      by (cases pl) (auto simp add: deliverBoth_def Let_def sendVoiceUpdate_def)
  next
    case (Some r)
    let ?pl1 = "pl\<lparr>event := Some d\<rparr>"
    let ?v1 = "v\<lparr>players := (players v)(g \<mapsto> ?pl1)\<rparr>"
    have mt: "migrationTarget st v r (the (endpoint d)) = None" using assms(8) Some by simp
    have first: "handleVoiceUpdate mv st v \<lparr>op = 0, body = VOICE_SERVER_UPDATE d\<rparr>
        = (None, ?v1, [])"
      using server_update_stays [OF g1 pl0 assms(7) Some mt, of mv] g2 nosid by simp
    have "players ?v1 g = Some ?pl1" and "clientId ?v1 = Some uid" and "event ?pl1 \<noteq> None"
      using assms(3) by simp_all
    from state_update_sends [OF assms(1) this, of mv st sid ch] first Some
    show ?thesis
      by (cases pl) (auto simp add: deliverBoth_def Let_def split: sum.splits)
  qed
qed

text \<open>
  With a non-empty session id, and an assignment for which the region rule
  chooses no migration target, the two orders leave the same orchestrator and
  send the same handshakes.
\<close>

lemma reconciliation_commutes:
  assumes "g \<noteq> []" and "players v g = Some pl" and "clientId v = Some uid"
    and "sessionId pl = None" and "event pl = None" and "guild_id d = Some g"
    and "truthy (endpoint d)" and "sid \<noteq> []"
    and "\<forall>r. node pl = Some r \<longrightarrow> migrationTarget st v r (the (endpoint d)) = None"
  shows "deliverBoth mv st v
           \<lparr>op = 0, body = VOICE_STATE_UPDATE (Some g) uid sid ch\<rparr>
           \<lparr>op = 0, body = VOICE_SERVER_UPDATE d\<rparr>
       = deliverBoth mv st v
           \<lparr>op = 0, body = VOICE_SERVER_UPDATE d\<rparr>
           \<lparr>op = 0, body = VOICE_STATE_UPDATE (Some g) uid sid ch\<rparr>
     \<and> (\<forall>r. node pl = Some r \<and> state (st r) = CONNECTED \<longrightarrow>
          snd (deliverBoth mv st v
                 \<lparr>op = 0, body = VOICE_STATE_UPDATE (Some g) uid sid ch\<rparr>
                 \<lparr>op = 0, body = VOICE_SERVER_UPDATE d\<rparr>)
            = [\<lparr>hs_target = r, hs_guildId = guildId pl, hs_sessionId = sid, hs_event = d\<rparr>])"
proof -
  note a = deliver_state_then_server [OF assms, of mv ch]
  note b = deliver_server_then_state [OF assms(1-7,9), of mv sid ch]
  have "node pl = Some r \<Longrightarrow> state (st r) = CONNECTED \<Longrightarrow>
      snd (deliverBoth mv st v
                 \<lparr>op = 0, body = VOICE_STATE_UPDATE (Some g) uid sid ch\<rparr>
                 \<lparr>op = 0, body = VOICE_SERVER_UPDATE d\<rparr>)
            = [\<lparr>hs_target = r, hs_guildId = guildId pl, hs_sessionId = sid, hs_event = d\<rparr>]" for r
    by (simp add: a sendVoiceUpdate_def)
  then show ?thesis using a b by simp
qed


section \<open>Properties of the search\<close>

subsection \<open>Durations\<close>

lemma loaders_frame [simp]:
  "loadFromAppleMusic ev (v\<lparr>nodes := ns, lastNodeSorting := t\<rparr>) q = loadFromAppleMusic ev v q"
  "loadFromDeezer ev (v\<lparr>nodes := ns, lastNodeSorting := t\<rparr>) q = loadFromDeezer ev v q"
  "loadFromSpotify ev (v\<lparr>nodes := ns, lastNodeSorting := t\<rparr>) q = loadFromSpotify ev v q"
  by (simp_all add: loadFromAppleMusic_def loadFromDeezer_def loadFromSpotify_def)

lemma trackLoaded_duration:
  "trackLoaded x = Inr (Some r) \<Longrightarrow> sr_loadType r = PLAYLIST_LOADED \<Longrightarrow>
     pl_duration (sr_playlistInfo r) = Some (totalDuration (sr_tracks r))"
  by (auto simp add: trackLoaded_def split: sum.splits)

lemma playlistLoaded_duration:
  "playlistLoaded x = Inr (Some r) \<Longrightarrow>
     pl_duration (sr_playlistInfo r) = Some (totalDuration (sr_tracks r))"
  by (auto simp add: playlistLoaded_def split: sum.splits)

lemma loadFromAppleMusic_duration:
  assumes "loadFromAppleMusic ev v q = Inr (Some r)" and "sr_loadType r = PLAYLIST_LOADED"
  shows "pl_duration (sr_playlistInfo r) = Some (totalDuration (sr_tracks r))"
  using assms
  by (auto simp add: loadFromAppleMusic_def split: option.splits if_splits
      intro: trackLoaded_duration playlistLoaded_duration)

lemma loadFromDeezer_duration:
  assumes "loadFromDeezer ev v q = Inr (Some r)" and "sr_loadType r = PLAYLIST_LOADED"
  shows "pl_duration (sr_playlistInfo r) = Some (totalDuration (sr_tracks r))"
  using assms
  by (auto simp add: loadFromDeezer_def split: option.splits if_splits
      intro: trackLoaded_duration playlistLoaded_duration)

lemma loadFromSpotify_duration:
  assumes "loadFromSpotify ev v q = Inr (Some r)" and "sr_loadType r = PLAYLIST_LOADED"
  shows "pl_duration (sr_playlistInfo r) = Some (totalDuration (sr_tracks r))"
  using assms
  by (auto simp add: loadFromSpotify_def split: option.splits if_splits
      intro: trackLoaded_duration playlistLoaded_duration)

lemma extSourceResult_duration:
  assumes "extSourceResult ev v q = Inr (Some r)" and "sr_loadType r = PLAYLIST_LOADED"
  shows "pl_duration (sr_playlistInfo r) = Some (totalDuration (sr_tracks r))"
  using assms
  by (auto simp add: extSourceResult_def split: sum.splits option.splits
      intro: loadFromAppleMusic_duration loadFromDeezer_duration loadFromSpotify_duration)

lemma wrapResult_duration:
  assumes "wrapResult ev q res v = (ret, v')"
  shows "case ret of
           Raw x \<Rightarrow> lt_loadType x \<noteq> PLAYLIST_LOADED
         | Wrapped r \<Rightarrow>
             sr_loadType r = PLAYLIST_LOADED \<longrightarrow>
             pl_duration (sr_playlistInfo r) = Some (totalDuration (sr_tracks r))"
  using assms
  by (auto simp add: wrapResult_def Let_def split: if_splits)

lemma fetch_duration:
  assumes "fetch ev nd q c v = (Inr ret, v', reqs)"
  shows "case ret of
           Raw x \<Rightarrow> lt_loadType x \<noteq> PLAYLIST_LOADED
         | Wrapped r \<Rightarrow>
             sr_loadType r = PLAYLIST_LOADED \<longrightarrow>
             pl_duration (sr_playlistInfo r) = Some (totalDuration (sr_tracks r))"
  using assms
  by (auto simp add: fetch_def split: sum.splits prod.splits dest: wrapResult_duration)

lemma genericLoad_duration:
  assumes "genericLoad ev nd q source v = (Inr ret, v', reqs)"
  shows "case ret of
           Raw x \<Rightarrow> lt_loadType x \<noteq> PLAYLIST_LOADED
         | Wrapped r \<Rightarrow>
             sr_loadType r = PLAYLIST_LOADED \<longrightarrow>
             pl_duration (sr_playlistInfo r) = Some (totalDuration (sr_tracks r))"
  using assms
  by (auto simp add: genericLoad_def Let_def
      split: option.splits if_splits prod.splits dest: wrapResult_duration fetch_duration)

lemma search_duration:
  assumes "search ev now st v q src = Some (Inr ret, v', reqs)"
  shows "case ret of
           Raw x \<Rightarrow> lt_loadType x \<noteq> PLAYLIST_LOADED
         | Wrapped r \<Rightarrow>
             sr_loadType r = PLAYLIST_LOADED \<longrightarrow>
             pl_duration (sr_playlistInfo r) = Some (totalDuration (sr_tracks r))"
proof -
  obtain nd v1 where bn: "bestNode now st v = Some (Inr nd, v1)"
    using assms by (auto simp add: search_def Let_def split: option.splits sum.splits prod.splits)
  let ?source = "case src of None \<Rightarrow> defaultSearchSource v | Some s \<Rightarrow> s"
  show ?thesis
  proof (cases "extSourceResult ev v1 q")
    case (Inl e)
    then show ?thesis using assms bn by (simp add: search_def)
  next
    case (Inr found)
    show ?thesis
    proof (cases found)
      case None
      then have "genericLoad ev nd q ?source v1 = (Inr ret, v', reqs)"
        using assms bn Inr by (simp add: search_def)
      then show ?thesis by (rule genericLoad_duration)
    next
      case (Some r)
      then have "ret = Wrapped r" using assms bn Inr by (simp add: search_def)
      then show ?thesis using extSourceResult_duration [of ev v1 q r] Inr Some by simp
    qed
  qed
qed

lemma totalDuration_huge:
  "totalDuration [\<lparr>title = ''QAAC'', duration = Finite 9007199254740992\<rparr>,
                  \<lparr>title = ''QAAD'', duration = Finite 1\<rparr>] = Finite 9007199254740992"
  by code_simp

lemma totalDuration_mix:
  "totalDuration [\<lparr>title = ''QAAA'', duration = Finite 1000\<rparr>,
                  \<lparr>title = ''QAAB'', duration = Finite 2000\<rparr>] = Finite 3000"
  by code_simp

text \<open>
  C9, as stated, fails: the durations are added as doubles. For a playlist
  whose two tracks last \<open>2\<^sup>5\<^sup>3\<close> and 1 milliseconds the search returns the
  duration \<open>2\<^sup>5\<^sup>3\<close>, which is not the sum of the two.
\<close>

theorem C9_counterexample:
  "search hugeEnv 1700000000000 (storeOf [mkNode CONNECTED 0 None]) (registered 1) ''long'' None
     = Some (Inr (Wrapped
         \<lparr>sr_loadType = PLAYLIST_LOADED,
          sr_playlistInfo = \<lparr>pl_name = Some ''long'', pl_duration = Some (Finite 9007199254740992),
                             selectedTrack = Some 0\<rparr>,
          sr_tracks = [\<lparr>title = ''QAAC'', duration = Finite 9007199254740992\<rparr>,
                       \<lparr>title = ''QAAD'', duration = Finite 1\<rparr>]\<rparr>),
        (registered 1)\<lparr>cache := Some [(''ytsearch:long'',
           hugePlaylist\<lparr>lt_playlistInfo :=
             \<lparr>pl_name = Some ''long'', pl_duration = Some (Finite 9007199254740992),
              selectedTrack = Some 0\<rparr>\<rparr>)]\<rparr>,
        [(0, ''ytsearch:long'')])
   \<and> (9007199254740992 :: rat) \<noteq> 9007199254740992 + 1"
  by (simp add: search_def bestNode_rescan rescan_def registered_def storeOf_def mkNode_def
      extSourceResult_def loadFromAppleMusic_def loadFromDeezer_def loadFromSpotify_def
      genericLoad_def finalQuery_def fetch_def wrapResult_def hugeEnv_def exampleEnv_def
      hugePlaylist_def plainTrack_def totalDuration_huge setCachedDuration_def Let_def)

text \<open>
  C9, amended. Whatever the collaborators and the node answer: a result that
  \<^verbatim>\<open>search\<close> returns with load type \<^verbatim>\<open>PLAYLIST_LOADED\<close> carries as
  \<^verbatim>\<open>playlistInfo.duration\<close> the durations of the tracks it returns, added as
  doubles from 0 in the order of the tracks; this is their exact sum whenever
  the durations are non-negative integers whose sum is at most \<open>2\<^sup>5\<^sup>3\<close>. The raw
  answers returned for \<^verbatim>\<open>LOAD_FAILED\<close> and \<^verbatim>\<open>NO_MATCHES\<close> are never playlists.
\<close>

theorem C9_playlist_duration_is_recomputed:
  assumes "search ev now st v q src = Some (Inr ret, v', reqs)"
  shows "case ret of
           Raw x \<Rightarrow> lt_loadType x \<noteq> PLAYLIST_LOADED
         | Wrapped r \<Rightarrow>
             sr_loadType r = PLAYLIST_LOADED \<longrightarrow>
               pl_duration (sr_playlistInfo r) = Some (totalDuration (sr_tracks r))
               \<and> (\<forall>ds. map duration (sr_tracks r) = map (\<lambda>d. Finite (of_int d)) ds
                        \<and> (\<forall>d \<in> set ds. 0 \<le> d) \<and> sum_list ds \<le> 2 ^ 53
                     \<longrightarrow> pl_duration (sr_playlistInfo r) = Some (Finite (of_int (sum_list ds))))"
proof (cases ret)
  case (Raw x)
  then show ?thesis using search_duration [OF assms] by simp
next
  case (Wrapped r)
  show ?thesis
  proof (cases "sr_loadType r = PLAYLIST_LOADED")
    case False
    then show ?thesis using Wrapped by simp
  next
    case True
    then have d: "pl_duration (sr_playlistInfo r) = Some (totalDuration (sr_tracks r))"
      using search_duration [OF assms] Wrapped by simp
    have "pl_duration (sr_playlistInfo r) = Some (Finite (of_int (sum_list ds)))"
      if "map duration (sr_tracks r) = map (\<lambda>d. Finite (of_int d)) ds"
        and "\<forall>d \<in> set ds. 0 \<le> d" and "sum_list ds \<le> 2 ^ 53" for ds
      using d totalDuration_exact [OF that] by simp
    with d show ?thesis using Wrapped by simp
  qed
qed

theorem C9_playlist_duration_witness:
  "search exampleEnv 1700000000000 (storeOf [mkNode CONNECTED 0 None]) (registered 1) ''mix'' None
     = Some (Inr (Wrapped
         \<lparr>sr_loadType = PLAYLIST_LOADED,
          sr_playlistInfo = \<lparr>pl_name = Some ''mix'', pl_duration = Some (Finite 3000),
                             selectedTrack = Some 0\<rparr>,
          sr_tracks = [\<lparr>title = ''QAAA'', duration = Finite 1000\<rparr>,
                       \<lparr>title = ''QAAB'', duration = Finite 2000\<rparr>]\<rparr>),
        (registered 1)\<lparr>cache := Some [(''ytsearch:mix'',
           examplePlaylist\<lparr>lt_playlistInfo :=
             \<lparr>pl_name = Some ''mix'', pl_duration = Some (Finite 3000), selectedTrack = Some 0\<rparr>\<rparr>)]\<rparr>,
        [(0, ''ytsearch:mix'')])
   \<and> Some (Finite 3000)
     = Some (totalDuration [\<lparr>title = ''QAAA'', duration = Finite 1000\<rparr>,
                            \<lparr>title = ''QAAB'', duration = Finite 2000\<rparr>])
   \<and> Some (Finite 3000) = Some (Finite (of_int (sum_list [1000, 2000])))"
proof -
  have run: "search exampleEnv 1700000000000 (storeOf [mkNode CONNECTED 0 None]) (registered 1)
      ''mix'' None
     = Some (Inr (Wrapped
         \<lparr>sr_loadType = PLAYLIST_LOADED,
          sr_playlistInfo = \<lparr>pl_name = Some ''mix'', pl_duration = Some (Finite 3000),
                             selectedTrack = Some 0\<rparr>,
          sr_tracks = [\<lparr>title = ''QAAA'', duration = Finite 1000\<rparr>,
                       \<lparr>title = ''QAAB'', duration = Finite 2000\<rparr>]\<rparr>),
        (registered 1)\<lparr>cache := Some [(''ytsearch:mix'',
           examplePlaylist\<lparr>lt_playlistInfo :=
             \<lparr>pl_name = Some ''mix'', pl_duration = Some (Finite 3000), selectedTrack = Some 0\<rparr>\<rparr>)]\<rparr>,
        [(0, ''ytsearch:mix'')])"
    by (simp add: search_def bestNode_rescan rescan_def registered_def storeOf_def mkNode_def
        extSourceResult_def loadFromAppleMusic_def loadFromDeezer_def loadFromSpotify_def
        genericLoad_def finalQuery_def fetch_def wrapResult_def exampleEnv_def examplePlaylist_def
        plainTrack_def totalDuration_mix setCachedDuration_def Let_def)
  have ds: "map duration [\<lparr>title = ''QAAA'', duration = Finite 1000\<rparr>,
                          \<lparr>title = ''QAAB'', duration = Finite 2000\<rparr>]
      = map (\<lambda>d. Finite (of_int d)) [1000, 2000]"
    by simp
  have bound: "(\<forall>d \<in> set [1000, 2000 :: int]. 0 \<le> d) \<and> sum_list [1000, 2000 :: int] \<le> 2 ^ 53"
    by simp
  from C9_playlist_duration_is_recomputed [OF run] ds bound
  have "Some (Finite 3000)
         = Some (totalDuration [\<lparr>title = ''QAAA'', duration = Finite 1000\<rparr>,
                                \<lparr>title = ''QAAB'', duration = Finite 2000\<rparr>])
      \<and> Some (Finite 3000) = Some (Finite (of_int (sum_list [1000, 2000])))"
    by simp
  with run show ?thesis by simp
qed

subsection \<open>The order of the lookups\<close>

text \<open>
  A loader yields \<^verbatim>\<open>null\<close> only if its collaborator is disabled or its pattern
  does not match: each kind a pattern can capture has a branch of its own.
\<close>

lemma loadFromAppleMusic_owns:
  assumes "appleMusic v = Some am" and "APPLE_MUSIC_REGEX ev q = Some (sf, kind, ident, song)"
    and "kind \<in> set [''music-video'', ''album'', ''playlist'', ''artist'']"
  shows "loadFromAppleMusic ev v q \<noteq> Inr None"
  using assms
  by (auto simp add: loadFromAppleMusic_def trackLoaded_def playlistLoaded_def split: sum.splits)

lemma loadFromDeezer_owns:
  assumes "deezer v = Some dz" and "DEEZER_REGEX ev q = Some (kind, ident)"
    and "kind \<in> set [''track'', ''album'', ''playlist'']"
  shows "loadFromDeezer ev v q \<noteq> Inr None"
  using assms
  by (auto simp add: loadFromDeezer_def trackLoaded_def playlistLoaded_def split: sum.splits)

lemma loadFromSpotify_owns:
  assumes "spotify v = Some sp" and "SPOTIFY_REGEX ev q = Some (kind, ident)"
    and "kind \<in> set [''track'', ''album'', ''playlist'', ''artist'']"
  shows "loadFromSpotify ev v q \<noteq> Inr None"
  using assms
  by (auto simp add: loadFromSpotify_def trackLoaded_def playlistLoaded_def split: sum.splits)

lemma extSourceResult_frame [simp]:
  "extSourceResult ev (v\<lparr>nodes := ns, lastNodeSorting := t\<rparr>) q = extSourceResult ev v q"
  by (simp add: extSourceResult_def split: sum.splits option.splits)

lemma fetch_requests: "fetch ev nd q c v = (out, v', reqs) \<Longrightarrow> reqs = [(nd, q)]"
  by (auto simp add: fetch_def split: sum.splits prod.splits)

lemma genericLoad_requests:
  assumes "genericLoad ev nd query source v = (out, v', reqs)" and "reqs \<noteq> []"
  shows "(\<exists>c. cache v = Some c \<and> cacheLookup c (finalQuery query source) = None)
         \<and> reqs = [(nd, finalQuery query source)]"
proof -
  obtain c where c: "cache v = Some c"
    using assms by (cases "cache v") (auto simp add: genericLoad_def Let_def)
  show ?thesis
  proof (cases "c = []")
    case True
    then have "cacheLookup c (finalQuery query source) = None" by (simp add: cacheLookup_def)
    moreover have "fetch ev nd (finalQuery query source) c v = (out, v', reqs)"
      using assms(1) c True by (simp add: genericLoad_def Let_def)
    ultimately show ?thesis using c fetch_requests by blast
  next
    case False
    show ?thesis
    proof (cases "cacheLookup c (finalQuery query source)")
      case None
      then have "fetch ev nd (finalQuery query source) c v = (out, v', reqs)"
        using assms(1) c False by (simp add: genericLoad_def Let_def)
      then show ?thesis using c None fetch_requests by blast
    next
      case (Some res)
      then have "reqs = []"
        using assms(1) c False by (auto simp add: genericLoad_def Let_def split: prod.splits)
      with assms(2) show ?thesis by simp
    qed
  qed
qed

text \<open>
  C4, as stated, fails: \<^verbatim>\<open>const node = this.bestNode\<close> is the first statement
  of \<^verbatim>\<open>search\<close>. For a Deezer track address that the Deezer loader resolves,
  with no CONNECTED node in the pool, the search throws \<open>NoAvailableNode\<close>
  before any collaborator is asked.
\<close>

theorem C4_counterexample:
  "loadFromDeezer exampleEnv ((registered 1)\<lparr>deezer := Some exampleDeezer\<rparr>)
       ''https://www.deezer.com/track/3135556''
     = Inr (Some \<lparr>sr_loadType = TRACK_LOADED, sr_playlistInfo = emptyPlaylistInfo,
                  sr_tracks = [\<lparr>title = ''One More Time'', duration = Finite 320000\<rparr>]\<rparr>)
   \<and> search exampleEnv 1700000000000 (storeOf [mkNode DISCONNECTED 0 None])
       ((registered 1)\<lparr>deezer := Some exampleDeezer\<rparr>)
       ''https://www.deezer.com/track/3135556'' None
     = Some (Inl NoAvailableNode, (registered 1)\<lparr>deezer := Some exampleDeezer\<rparr>, [])"
  by (simp add: search_def bestNode_rescan rescan_def registered_def storeOf_def mkNode_def
      loadFromDeezer_def trackLoaded_def exampleEnv_def exampleDeezer_def)

text \<open>
  C4, amended. \<^verbatim>\<open>search\<close> selects \<^verbatim>\<open>bestNode\<close> first and fails with its error if
  it fails. Otherwise the loaders are asked in the order Apple Music, Deezer,
  Spotify; the first that yields a result ends the search with that result,
  without a load request and whatever the cache holds; and a load request is
  issued only when all three yielded \<^verbatim>\<open>null\<close> and the cache has no entry for the
  final query, and then it is the single request for that query on the
  selected node.
\<close>

theorem C4_search_order:
  "(bestNode now st v = Some (Inl e, v1) \<longrightarrow> search ev now st v q src = Some (Inl e, v1, []))
   \<and> (bestNode now st v = Some (Inr nd, v1) \<longrightarrow>
        (loadFromAppleMusic ev v q = Inr (Some r) \<longrightarrow>
           search ev now st v q src = Some (Inr (Wrapped r), v1, []))
      \<and> (loadFromAppleMusic ev v q = Inr None \<and> loadFromDeezer ev v q = Inr (Some r) \<longrightarrow>
           search ev now st v q src = Some (Inr (Wrapped r), v1, []))
      \<and> (loadFromAppleMusic ev v q = Inr None \<and> loadFromDeezer ev v q = Inr None
           \<and> loadFromSpotify ev v q = Inr (Some r) \<longrightarrow>
           search ev now st v q src = Some (Inr (Wrapped r), v1, []))
      \<and> (\<forall>out v2 reqs. search ev now st v q src = Some (out, v2, reqs) \<and> reqs \<noteq> [] \<longrightarrow>
           loadFromAppleMusic ev v q = Inr None \<and> loadFromDeezer ev v q = Inr None
           \<and> loadFromSpotify ev v q = Inr None
           \<and> (\<exists>c. cache v = Some c
                \<and> cacheLookup c (finalQuery q
                     (case src of None \<Rightarrow> defaultSearchSource v | Some s \<Rightarrow> s)) = None)
           \<and> reqs = [(nd, finalQuery q (case src of None \<Rightarrow> defaultSearchSource v | Some s \<Rightarrow> s))]))"
proof (intro conjI impI allI)
  assume "bestNode now st v = Some (Inl e, v1)"
  then show "search ev now st v q src = Some (Inl e, v1, [])" by (simp add: search_def)
next
  assume bn: "bestNode now st v = Some (Inr nd, v1)"
    and "loadFromAppleMusic ev v q = Inr (Some r)"
  moreover obtain ns t where "v1 = v\<lparr>nodes := ns, lastNodeSorting := t\<rparr>"
    using bestNode_frame [OF bn] by blast
  ultimately show "search ev now st v q src = Some (Inr (Wrapped r), v1, [])"
    by (simp add: search_def extSourceResult_def)
next
  assume bn: "bestNode now st v = Some (Inr nd, v1)"
    and "loadFromAppleMusic ev v q = Inr None \<and> loadFromDeezer ev v q = Inr (Some r)"
  moreover obtain ns t where "v1 = v\<lparr>nodes := ns, lastNodeSorting := t\<rparr>"
    using bestNode_frame [OF bn] by blast
  ultimately show "search ev now st v q src = Some (Inr (Wrapped r), v1, [])"
    by (simp add: search_def extSourceResult_def)
next
  assume bn: "bestNode now st v = Some (Inr nd, v1)"
    and "loadFromAppleMusic ev v q = Inr None \<and> loadFromDeezer ev v q = Inr None
           \<and> loadFromSpotify ev v q = Inr (Some r)"
  moreover obtain ns t where "v1 = v\<lparr>nodes := ns, lastNodeSorting := t\<rparr>"
    using bestNode_frame [OF bn] by blast
  ultimately show "search ev now st v q src = Some (Inr (Wrapped r), v1, [])"
    by (simp add: search_def extSourceResult_def)
next
  fix out v2 reqs
  let ?source = "case src of None \<Rightarrow> defaultSearchSource v | Some s \<Rightarrow> s"
  assume bn: "bestNode now st v = Some (Inr nd, v1)"
    and run: "search ev now st v q src = Some (out, v2, reqs) \<and> reqs \<noteq> []"
  obtain ns t where v1: "v1 = v\<lparr>nodes := ns, lastNodeSorting := t\<rparr>"
    using bestNode_frame [OF bn] by blast
  have ext: "extSourceResult ev v q = Inr None"
    using run bn v1 by (cases "extSourceResult ev v q")
      (auto simp add: search_def split: option.splits)
  then have gl: "genericLoad ev nd q ?source v1 = (out, v2, reqs)"
    using run bn v1 by (simp add: search_def)
  have a: "loadFromAppleMusic ev v q = Inr None"
    using ext by (auto simp add: extSourceResult_def split: sum.splits option.splits)
  have b: "loadFromDeezer ev v q = Inr None"
    using ext by (auto simp add: extSourceResult_def split: sum.splits option.splits)
  have c: "loadFromSpotify ev v q = Inr None"
    using ext by (auto simp add: extSourceResult_def split: sum.splits option.splits)
  have d: "(\<exists>c. cache v = Some c \<and> cacheLookup c (finalQuery q ?source) = None)
         \<and> reqs = [(nd, finalQuery q ?source)]"
    using genericLoad_requests [OF gl] run v1 by simp
  show "loadFromAppleMusic ev v q = Inr None" by (rule a)
  show "loadFromDeezer ev v q = Inr None" by (rule b)
  show "loadFromSpotify ev v q = Inr None" by (rule c)
  show "\<exists>c. cache v = Some c \<and> cacheLookup c (finalQuery q ?source) = None" using d by blast
  show "reqs = [(nd, finalQuery q ?source)]" using d by blast
qed

theorem C4_search_order_witness:
  "search exampleEnv 1700000000000 (storeOf [mkNode CONNECTED 0 None])
       ((registered 1)\<lparr>deezer := Some exampleDeezer,
          cache := Some [(''https://www.deezer.com/track/3135556'', examplePlaylist)]\<rparr>)
       ''https://www.deezer.com/track/3135556'' None
     = Some (Inr (Wrapped \<lparr>sr_loadType = TRACK_LOADED, sr_playlistInfo = emptyPlaylistInfo,
                  sr_tracks = [\<lparr>title = ''One More Time'', duration = Finite 320000\<rparr>]\<rparr>),
             (registered 1)\<lparr>deezer := Some exampleDeezer,
               cache := Some [(''https://www.deezer.com/track/3135556'', examplePlaylist)]\<rparr>, [])"
proof -
  let ?v = "(registered 1)\<lparr>deezer := Some exampleDeezer,
          cache := Some [(''https://www.deezer.com/track/3135556'', examplePlaylist)]\<rparr>"
  let ?st = "storeOf [mkNode CONNECTED 0 None]"
  let ?q = "''https://www.deezer.com/track/3135556''"
  let ?r = "\<lparr>sr_loadType = TRACK_LOADED, sr_playlistInfo = emptyPlaylistInfo,
                  sr_tracks = [\<lparr>title = ''One More Time'', duration = Finite 320000\<rparr>]\<rparr>"
  have bn: "bestNode 1700000000000 ?st ?v = Some (Inr 0, ?v)"
    by (simp add: bestNode_rescan rescan_def registered_def storeOf_def mkNode_def)
  have am: "loadFromAppleMusic exampleEnv ?v ?q = Inr None"
    by (simp add: loadFromAppleMusic_def registered_def)
  have dz: "loadFromDeezer exampleEnv ?v ?q = Inr (Some ?r)"
    by (simp add: loadFromDeezer_def trackLoaded_def exampleEnv_def exampleDeezer_def)
  from C4_search_order [of 1700000000000 ?st ?v NoAvailableNode ?v exampleEnv ?q None 0 ?r]
    bn am dz
  show ?thesis by blast
qed

end
